theory Spec2Isabelle
  imports Main "HOL-Library.Word" "HOL-Library.DAList" "HOL-Library.Multiset"
begin

unbundle bit_operations_syntax

section \<open>Errors and contexts\<close>

text \<open>
  Go errors are values. \<open>ErrNew\<close> is \<open>errors.New\<close>; \<open>ErrWrap m e\<close> is an error that
  wraps \<open>e\<close> under the message prefix \<open>m\<close>, as \<open>fmt.Errorf("m: %w", e)\<close> and
  \<open>errors.Wrap(e, "m")\<close> of github.com/pkg/errors build it; \<open>ErrStatus\<close> is the
  API machinery's status error with its reason, its HTTP code and its message;
  \<open>InvalidByteError\<close> is the error type of that name of encoding/hex, which is the
  offending byte.
\<close>

type_synonym int32 = "32 word"
type_synonym int64 = "64 word"

type_synonym StatusReason = string

datatype error =
  ErrNew string
  | ErrWrap string error
  | ErrStatus StatusReason int32 string
  | InvalidByteError char

text \<open>
  \<open>context.Context\<close>, as far as a callee can observe it: \<open>Err()\<close> is nil while the
  context is live and \<open>context.DeadlineExceeded\<close> (or \<open>context.Canceled\<close>) afterwards.
\<close>

record Context =
  Err :: "error option"

definition DeadlineExceeded :: error where
  "DeadlineExceeded = ErrNew ''context deadline exceeded''"

definition Canceled :: error where
  "Canceled = ErrNew ''context canceled''"

section \<open>The strings package, as far as Validate uses it\<close>

type_synonym byte = "8 word"

text \<open>\<open>strings.HasPrefix(s, prefix)\<close>: \<open>len(s) >= len(prefix) && s[:len(prefix)] == prefix\<close>.\<close>

definition HasPrefix :: "string \<Rightarrow> string \<Rightarrow> bool" where
  "HasPrefix s pre \<longleftrightarrow> length s \<ge> length pre \<and> take (length pre) s = pre"

text \<open>\<open>strings.Index(s, sep)\<close>: the first position where \<open>sep\<close> occurs in \<open>s\<close>; Go's -1 is \<open>None\<close>.\<close>

fun Index :: "string \<Rightarrow> string \<Rightarrow> nat option" where
  "Index [] sep = (if sep = [] then Some 0 else None)"
| "Index (c # cs) sep =
     (if HasPrefix (c # cs) sep then Some 0 else map_option Suc (Index cs sep))"

lemma Index_bound: "Index s sep = Some m \<Longrightarrow> m + length sep \<le> length s"
proof (induction s arbitrary: m)
  case Nil
  then show ?case by (simp split: if_splits)
next
  case (Cons c cs)
  show ?case
  proof (cases "HasPrefix (c # cs) sep")
    case True
    with Cons.prems show ?thesis by (simp add: HasPrefix_def)
  next
    case False
    with Cons.prems obtain k where "Index cs sep = Some k" "m = Suc k" by auto
    with Cons.IH [of k] show ?thesis by simp
  qed
qed

text \<open>
  \<open>strings.Split(s, sep)\<close> (\<open>genSplit\<close> with no limit): cut at every occurrence of
  \<open>sep\<close>, from the left; the rest of the string is the last part. An empty separator
  explodes the string (byte-wise here; Validate never splits on an empty separator).
\<close>

function Split :: "string \<Rightarrow> string \<Rightarrow> string list" where
  "Split s sep =
     (if sep = [] then map (\<lambda>c. [c]) s
      else case Index s sep of
             None \<Rightarrow> [s]
           | Some m \<Rightarrow> take m s # Split (drop (m + length sep) s) sep)"
  by pat_completeness auto
termination
proof (relation "measure (\<lambda>(s, sep). length s)")
  show "wf (measure (\<lambda>(s, sep). length s))" by simp
next
  fix s sep :: string and m
  assume "sep \<noteq> []" and "Index s sep = Some m"
  from Index_bound [OF this(2)] this(1)
  have "m + length sep \<le> length s" "0 < length sep" by simp_all
  then have "length s - (m + length sep) < length s" by arith
  then show "((drop (m + length sep) s, sep), (s, sep)) \<in> measure (\<lambda>(s, sep). length s)"
    by simp
qed

declare Split.simps [simp del]

definition tagDelim :: string where
  "tagDelim = '':''"

section \<open>crypto/subtle and encoding/hex\<close>

text \<open>\<open>subtle.ConstantTimeByteEq(x, y)\<close>: \<open>int((uint32(x^y) - 1) >> 31)\<close>.\<close>

definition ConstantTimeByteEq :: "byte \<Rightarrow> byte \<Rightarrow> int" where
  "ConstantTimeByteEq x y = uint (drop_bit 31 ((ucast (x XOR y) :: 32 word) - 1))"

text \<open>
  The loop of \<open>subtle.ConstantTimeCompare\<close>,
  \<open>for i := 0; i < len(x); i++ { v |= x[i] ^ y[i] }\<close>, run from position \<open>i\<close> with
  accumulator \<open>v\<close>.
\<close>

function ConstantTimeCompare_loop :: "byte list \<Rightarrow> byte list \<Rightarrow> nat \<Rightarrow> byte \<Rightarrow> byte" where
  "ConstantTimeCompare_loop x y i v =
     (if i < length x
      then ConstantTimeCompare_loop x y (i + 1) (v OR (x ! i XOR y ! i))
      else v)"
  by pat_completeness auto
termination
  by (relation "measure (\<lambda>(x, y, i, v). length x - i)") auto

declare ConstantTimeCompare_loop.simps [simp del]

text \<open>
  \<open>subtle.ConstantTimeCompare(x, y)\<close>: 0 at once when the lengths differ, else the loop
  over every position and \<open>ConstantTimeByteEq(v, 0)\<close>.
\<close>

definition ConstantTimeCompare :: "byte list \<Rightarrow> byte list \<Rightarrow> int" where
  "ConstantTimeCompare x y =
     (if length x \<noteq> length y then 0
      else ConstantTimeByteEq (ConstantTimeCompare_loop x y 0 0) 0)"

text \<open>\<open>hex.reverseHexTable\<close>: the value of a hexadecimal digit, 0xff for any other byte.\<close>

definition reverseHexTable :: "char \<Rightarrow> byte" where
  "reverseHexTable c =
     (let n = (of_char c :: nat) in
      if 48 \<le> n \<and> n \<le> 57 then of_nat (n - 48)
      else if 97 \<le> n \<and> n \<le> 102 then of_nat (n - 87)
      else if 65 \<le> n \<and> n \<le> 70 then of_nat (n - 55)
      else 0xff)"

definition ErrLength :: error where
  "ErrLength = ErrNew ''encoding/hex: odd length hex string''"

text \<open>
  \<open>hex.DecodeString\<close>: two digits per byte, the first invalid digit reported before an
  odd length. Go returns the bytes decoded so far beside the error; its only caller here
  drops them, so the model returns the error alone.
\<close>

fun DecodeString :: "string \<Rightarrow> error + byte list" where
  "DecodeString [] = Inr []"
| "DecodeString [p] =
     (if reverseHexTable p > 0x0f then Inl (InvalidByteError p) else Inl ErrLength)"
| "DecodeString (p # q # rest) =
     (let a = reverseHexTable p; b = reverseHexTable q in
      if a > 0x0f then Inl (InvalidByteError p)
      else if b > 0x0f then Inl (InvalidByteError q)
      else case DecodeString rest of
             Inl err \<Rightarrow> Inl err
           | Inr bs \<Rightarrow> Inr ((push_bit 4 a OR b) # bs))"

section \<open>The image validator (package validate)\<close>

text \<open>
  The notary client's answer for a tag, \<open>client.TargetWithRole\<close>. Validate reads only
  \<open>Hashes\<close>, a Go map from the hash algorithm's name to the hash bytes: an association
  list with distinct keys, whose \<open>len\<close> is its number of entries.
\<close>

record Target =
  Hashes :: "(string, byte list) alist"

definition len_map :: "('k, 'v) alist \<Rightarrow> nat" where
  "len_map m = length (DAList.impl_of m)"

text \<open>Indexing a Go map: the zero value (a nil slice, of length 0) for a missing key.\<close>

definition index_map :: "(string, byte list) alist \<Rightarrow> string \<Rightarrow> byte list" where
  "index_map m k = (case DAList.lookup m k of None \<Rightarrow> [] | Some v \<Rightarrow> v)"

text \<open>
  The collaborators are interfaces and library calls whose answers the validator cannot
  know: they are parameters. \<open>NotaryRepoClient\<close> and \<open>RepoFactory\<close> are the notary
  side; \<open>remote\<close> holds the three calls of go-containerregistry that
  \<open>getImageDigestHash\<close> makes (\<open>name.ParseReference\<close>, \<open>remote.Image\<close> and the image's
  \<open>Manifest()\<close>, of which \<open>m.Config.Digest.Hex\<close> is read). The type \<open>NotaryConfig\<close>
  is declared outside the two source files: it is the type parameter \<open>'nc\<close>.
\<close>

record NotaryRepoClient =
  GetTargetByName :: "string \<Rightarrow> error + Target"

record 'nc RepoFactory =
  NewRepoClient :: "string \<Rightarrow> 'nc \<Rightarrow> error + NotaryRepoClient"

record Hash =
  Algorithm :: string
  Hex :: string

record Descriptor =
  Digest :: Hash

record Manifest =
  Config :: Descriptor

record ('ref, 'img) remote =
  ParseReference :: "string \<Rightarrow> error + 'ref"
  Image :: "'ref \<Rightarrow> error + 'img"
  ImageManifest :: "'img \<Rightarrow> error + Manifest"

record 'nc ServiceConfig =
  NotaryConfig :: 'nc
  AllowedRegistries :: "string list"

record 'nc notaryService = "'nc ServiceConfig" +
  RepoFactory :: "'nc RepoFactory"

text \<open>\<open>NewImageValidator\<close> copies the two fields of the configuration and keeps the factory.\<close>

definition NewImageValidator :: "'nc ServiceConfig \<Rightarrow> 'nc RepoFactory \<Rightarrow> 'nc notaryService" where
  "NewImageValidator sc notaryClientFactory =
     \<lparr>NotaryConfig = NotaryConfig sc,
      AllowedRegistries = AllowedRegistries sc,
      RepoFactory = notaryClientFactory\<rparr>"

text \<open>
  Every call that leaves the validator is recorded, in order, beside the result: a
  function that returns the empty list has contacted neither the trust service nor the
  registry.
\<close>

datatype call =
  CallNewRepoClient string
  | CallGetTargetByName string
  | CallParseReference string
  | CallRemoteImage
  | CallManifest

text \<open>\<open>isImageAllowed\<close>: the first entry that is a prefix of the repository decides.\<close>

fun isImageAllowed_loop :: "string list \<Rightarrow> string \<Rightarrow> bool" where
  "isImageAllowed_loop [] imgRepo = False"
| "isImageAllowed_loop (allowed # rest) imgRepo =
     (if HasPrefix imgRepo allowed then True else isImageAllowed_loop rest imgRepo)"

definition isImageAllowed :: "('nc, 'z) notaryService_scheme \<Rightarrow> string \<Rightarrow> bool" where
  "isImageAllowed s imgRepo = isImageAllowed_loop (AllowedRegistries s) imgRepo"

text \<open>
  \<open>getImageDigestHash\<close>. It takes the image only, no context. On an error Go returns an
  empty slice beside the error; the model returns the error alone (\<open>Inl\<close>).
\<close>

definition getImageDigestHash ::
  "('ref, 'img) remote \<Rightarrow> string \<Rightarrow> (error + byte list) \<times> call list" where
  "getImageDigestHash lib img =
     (if length img = 0 then (Inl (ErrNew ''empty image provided''), [])
      else case ParseReference lib img of
        Inl err \<Rightarrow> (Inl (ErrWrap ''ref parse'' err), [CallParseReference img])
      | Inr ref \<Rightarrow>
         (case Image lib ref of
            Inl err \<Rightarrow>
              (Inl (ErrWrap ''get image'' err), [CallParseReference img, CallRemoteImage])
          | Inr i \<Rightarrow>
             (case ImageManifest lib i of
                Inl err \<Rightarrow>
                  (Inl (ErrWrap ''image manifest'' err),
                   [CallParseReference img, CallRemoteImage, CallManifest])
              | Inr m \<Rightarrow>
                 (case DecodeString (Hex (Digest (Config m))) of
                    Inl err \<Rightarrow>
                      (Inl (ErrWrap ''checksum error'' err),
                       [CallParseReference img, CallRemoteImage, CallManifest])
                  | Inr bytes \<Rightarrow>
                      (Inr bytes,
                       [CallParseReference img, CallRemoteImage, CallManifest])))))"

text \<open>
  \<open>getNotaryImageDigestHash\<close>. The context is a parameter that the body never reads and
  never hands to the factory or the client. The \<open>for i := range target.Hashes\<close> loop
  leaves in \<open>key\<close> the last key it has seen.
\<close>

definition getNotaryImageDigestHash ::
  "('nc, 'z) notaryService_scheme \<Rightarrow> Context \<Rightarrow> string \<Rightarrow> string
     \<Rightarrow> (error + byte list) \<times> call list" where
  "getNotaryImageDigestHash s ctx imgRepo imgTag =
     (if length imgRepo = 0 \<or> length imgTag = 0
      then (Inl (ErrNew ''empty arguments provided''), [])
      else case NewRepoClient (RepoFactory s) imgRepo (NotaryConfig s) of
        Inl err \<Rightarrow> (Inl err, [CallNewRepoClient imgRepo])
      | Inr c \<Rightarrow>
         (case GetTargetByName c imgTag of
            Inl err \<Rightarrow> (Inl err, [CallNewRepoClient imgRepo, CallGetTargetByName imgTag])
          | Inr target \<Rightarrow>
              (if len_map (Hashes target) = 0
               then (Inl (ErrNew ''image hash is missing''),
                     [CallNewRepoClient imgRepo, CallGetTargetByName imgTag])
               else if len_map (Hashes target) > 1
               then (Inl (ErrNew ''more than one hash for image''),
                     [CallNewRepoClient imgRepo, CallGetTargetByName imgTag])
               else let key = fold (\<lambda>i key. i) (map fst (DAList.impl_of (Hashes target))) ''''
                    in (Inr (index_map (Hashes target) key),
                        [CallNewRepoClient imgRepo, CallGetTargetByName imgTag]))))"

text \<open>\<open>Validate\<close>: \<open>None\<close> is Go's nil error.\<close>

definition Validate ::
  "('ref, 'img) remote \<Rightarrow> ('nc, 'z) notaryService_scheme \<Rightarrow> Context \<Rightarrow> string
     \<Rightarrow> error option \<times> call list" where
  "Validate lib s ctx img =
     (let split = Split img tagDelim in
      if length split \<noteq> 2
      then (Some (ErrNew ''image name is not formatted correctly''), [])
      else
        let imgRepo = split ! 0; imgTag = split ! 1 in
        if isImageAllowed s imgRepo then (None, [])
        else case getNotaryImageDigestHash s ctx imgRepo imgTag of
          (Inl err, calls) \<Rightarrow> (Some err, calls)
        | (Inr expectedShaBytes, calls) \<Rightarrow>
           (case getImageDigestHash lib img of
              (Inl err, calls') \<Rightarrow> (Some err, calls @ calls')
            | (Inr shaBytes, calls') \<Rightarrow>
                if ConstantTimeCompare shaBytes expectedShaBytes = 0
                then (Some (ErrNew ''unexpected image hash value''), calls @ calls')
                else (None, calls @ calls')))"

section \<open>The webhook configuration objects (package certs)\<close>

text \<open>
  The objects of \<open>k8s.io/api/admissionregistration/v1\<close> and \<open>metav1\<close>, with the fields
  the code sets or compares. A Go pointer field is an \<open>option\<close> (\<open>None\<close> is nil). A Go
  slice is a \<open>slice\<close>: \<open>reflect.DeepEqual\<close> tells a nil slice from an empty one, so
  the model keeps them apart, and equality of the model's values is then deep equality.
\<close>

datatype 'a slice = nil | Slice "'a list"

datatype FailurePolicyType = Ignore | Fail
datatype MatchPolicyType = Exact | Equivalent
datatype ReinvocationPolicyType = NeverReinvocationPolicy | IfNeededReinvocationPolicy
datatype ScopeType = ClusterScope | NamespacedScope | AllScopes
datatype SideEffectClass =
  SideEffectClassUnknown | SideEffectClassNone | SideEffectClassSome
  | SideEffectClassNoneOnDryRun
datatype OperationType = OperationAll | Create | Update | Delete | Connect

record LabelSelector =
  MatchLabels :: "(string \<times> string) list option"

record ServiceReference =
  Namespace :: string
  Name :: string
  Path :: "string option"
  Port :: "int32 option"

record WebhookClientConfig =
  URL :: "string option"
  Service :: "ServiceReference option"
  CABundle :: "byte slice"

record Rule =
  APIGroups :: "string slice"
  APIVersions :: "string slice"
  Resources :: "string slice"
  Scope :: "ScopeType option"

record RuleWithOperations =
  Operations :: "OperationType slice"
  Rule :: Rule

record MutatingWebhook =
  Name :: string
  ClientConfig :: WebhookClientConfig
  Rules :: "RuleWithOperations slice"
  FailurePolicy :: "FailurePolicyType option"
  MatchPolicy :: "MatchPolicyType option"
  NamespaceSelector :: "LabelSelector option"
  ObjectSelector :: "LabelSelector option"
  SideEffects :: "SideEffectClass option"
  TimeoutSeconds :: "int32 option"
  AdmissionReviewVersions :: "string slice"
  ReinvocationPolicy :: "ReinvocationPolicyType option"

record ValidatingWebhook =
  Name :: string
  ClientConfig :: WebhookClientConfig
  Rules :: "RuleWithOperations slice"
  FailurePolicy :: "FailurePolicyType option"
  MatchPolicy :: "MatchPolicyType option"
  NamespaceSelector :: "LabelSelector option"
  ObjectSelector :: "LabelSelector option"
  SideEffects :: "SideEffectClass option"
  TimeoutSeconds :: "int32 option"
  AdmissionReviewVersions :: "string slice"

record ObjectMeta =
  Name :: string
  GenerateName :: string
  Namespace :: string
  UID :: string
  ResourceVersion :: string
  Generation :: int64
  Labels :: "(string \<times> string) list option"
  Annotations :: "(string \<times> string) list option"

record MutatingWebhookConfiguration =
  ObjectMeta :: ObjectMeta
  Webhooks :: "MutatingWebhook slice"

record ValidatingWebhookConfiguration =
  ObjectMeta :: ObjectMeta
  Webhooks :: "ValidatingWebhook slice"

text \<open>
  \<open>WebhookConfig\<close> is declared outside the two source files; these are the three fields
  the code reads, under the names it reads them by.
\<close>

record WebhookConfig =
  CABundel :: "byte slice"
  ServiceName :: string
  ServiceNamespace :: string

type_synonym WebHookType = string

definition MutatingWebhook :: WebHookType where
  "MutatingWebhook = ''Mutating''"

definition ValidatingWebHook :: WebHookType where
  "ValidatingWebHook = ''Validating''"

definition DefaultingWebhookName :: string where
  "DefaultingWebhookName = ''defaulting.webhook.warden.kyma-project.io''"

definition ValidationWebhookName :: string where
  "ValidationWebhookName = ''validation.webhook.warden.kyma-project.io''"

definition WebhookTimeout :: int32 where
  "WebhookTimeout = 15"

definition PodValidationPath :: string where
  "PodValidationPath = ''/validation/pods''"

text \<open>The constants of \<open>k8s.io/api/core/v1\<close> that the rules name.\<close>

definition GroupName :: string where
  "GroupName = ''''"

definition SchemeGroupVersion_Version :: string where
  "SchemeGroupVersion_Version = ''v1''"

definition ResourcePods :: string where
  "ResourcePods = ''pods''"

text \<open>The zero value of \<open>metav1.ObjectMeta\<close> but for the name.\<close>

definition ObjectMeta_named :: "string \<Rightarrow> ObjectMeta" where
  "ObjectMeta_named n =
     \<lparr>ObjectMeta.Name = n, GenerateName = '''', Namespace = '''', UID = '''',
      ResourceVersion = '''', Generation = 0, Labels = None, Annotations = None\<rparr>"

text \<open>
  \<open>getFunctionMutatingWebhookCfg\<close>. The path \<open>defaulting.WebhookPath\<close> is a constant of
  a package outside the two source files: it is the parameter \<open>WebhookPath\<close>.
\<close>

definition getFunctionMutatingWebhookCfg :: "string \<Rightarrow> WebhookConfig \<Rightarrow> MutatingWebhook" where
  "getFunctionMutatingWebhookCfg WebhookPath config =
     (let failurePolicy = Fail;
          matchPolicy = Exact;
          reinvocationPolicy = NeverReinvocationPolicy;
          scope = AllScopes;
          sideEffects = SideEffectClassNone
      in \<lparr>MutatingWebhook.Name = DefaultingWebhookName,
          ClientConfig =
            \<lparr>URL = None,
             Service = Some \<lparr>ServiceReference.Namespace = ServiceNamespace config,
                             Name = ServiceName config,
                             Path = Some WebhookPath,
                             Port = Some 443\<rparr>,
             CABundle = CABundel config\<rparr>,
          Rules = Slice
            [\<lparr>Operations = Slice [Create, Update],
              Rule = \<lparr>APIGroups = Slice [GroupName],
                       APIVersions = Slice [SchemeGroupVersion_Version],
                       Resources = Slice [ResourcePods],
                       Scope = Some scope\<rparr>\<rparr>],
          FailurePolicy = Some failurePolicy,
          MatchPolicy = Some matchPolicy,
          NamespaceSelector = None,
          ObjectSelector = None,
          SideEffects = Some sideEffects,
          TimeoutSeconds = Some WebhookTimeout,
          AdmissionReviewVersions = Slice [''v1beta1'', ''v1''],
          ReinvocationPolicy = Some reinvocationPolicy\<rparr>)"

definition createMutatingWebhookConfiguration ::
  "string \<Rightarrow> WebhookConfig \<Rightarrow> MutatingWebhookConfiguration" where
  "createMutatingWebhookConfiguration WebhookPath config =
     \<lparr>MutatingWebhookConfiguration.ObjectMeta = ObjectMeta_named DefaultingWebhookName,
      Webhooks = Slice [getFunctionMutatingWebhookCfg WebhookPath config]\<rparr>"

definition createValidatingWebhookConfiguration ::
  "WebhookConfig \<Rightarrow> ValidatingWebhookConfiguration" where
  "createValidatingWebhookConfiguration config =
     (let failurePolicy = Ignore;
          matchPolicy = Exact;
          scope = AllScopes;
          sideEffects = SideEffectClassNone
      in \<lparr>ValidatingWebhookConfiguration.ObjectMeta = ObjectMeta_named ValidationWebhookName,
          Webhooks = Slice
            [\<lparr>ValidatingWebhook.Name = ValidationWebhookName,
              ClientConfig =
                \<lparr>URL = None,
                 Service = Some \<lparr>ServiceReference.Namespace = ServiceNamespace config,
                                 Name = ServiceName config,
                                 Path = Some PodValidationPath,
                                 Port = Some 443\<rparr>,
                 CABundle = CABundel config\<rparr>,
              Rules = Slice
                [\<lparr>Operations = Slice [Create, Update],
                  Rule = \<lparr>APIGroups = Slice [GroupName],
                           APIVersions = Slice [SchemeGroupVersion_Version],
                           Resources = Slice [ResourcePods],
                           Scope = Some scope\<rparr>\<rparr>],
              FailurePolicy = Some failurePolicy,
              MatchPolicy = Some matchPolicy,
              NamespaceSelector = None,
              ObjectSelector = None,
              SideEffects = Some sideEffects,
              TimeoutSeconds = Some WebhookTimeout,
              AdmissionReviewVersions = Slice [''v1beta1'', ''v1'']\<rparr>]\<rparr>)"

section \<open>The reconciler\<close>

text \<open>
  \<open>ctlrclient.Client\<close> is an interface: its answers are parameters. \<open>Get\<close> fills the
  object it is given and returns an error; here it returns the object or the error.
  The generic \<open>Get\<close>, \<open>Create\<close> and \<open>Update\<close> are used at the two object types, so
  the record has one field for each use. Every request is recorded, in order, beside
  the result.
\<close>

record NamespacedName =
  Namespace :: string
  Name :: string

record Client =
  GetMutating :: "Context \<Rightarrow> NamespacedName \<Rightarrow> error + MutatingWebhookConfiguration"
  CreateMutating :: "Context \<Rightarrow> MutatingWebhookConfiguration \<Rightarrow> error option"
  UpdateMutating :: "Context \<Rightarrow> MutatingWebhookConfiguration \<Rightarrow> error option"
  GetValidating :: "Context \<Rightarrow> NamespacedName \<Rightarrow> error + ValidatingWebhookConfiguration"
  CreateValidating :: "Context \<Rightarrow> ValidatingWebhookConfiguration \<Rightarrow> error option"
  UpdateValidating :: "Context \<Rightarrow> ValidatingWebhookConfiguration \<Rightarrow> error option"

datatype request =
  GetMutatingRequest NamespacedName
  | CreateMutatingRequest MutatingWebhookConfiguration
  | UpdateMutatingRequest MutatingWebhookConfiguration
  | GetValidatingRequest NamespacedName
  | CreateValidatingRequest ValidatingWebhookConfiguration
  | UpdateValidatingRequest ValidatingWebhookConfiguration

text \<open>\<open>errors.Wrap\<close> and \<open>errors.Wrapf\<close> of github.com/pkg/errors: nil stays nil.\<close>

fun Wrap :: "error option \<Rightarrow> string \<Rightarrow> error option" where
  "Wrap None message = None"
| "Wrap (Some err) message = Some (ErrWrap message err)"

text \<open>
  The three functions of the reconciler. \<open>apiErrors.IsNotFound\<close> belongs to the API
  machinery, outside the two source files: it is the parameter \<open>IsNotFound\<close>, and what
  is proved holds for whatever errors it takes for not-found.
\<close>

definition ensureMutatingWebhookConfigFor ::
  "string \<Rightarrow> (error \<Rightarrow> bool) \<Rightarrow> Context \<Rightarrow> Client \<Rightarrow> WebhookConfig
     \<Rightarrow> error option \<times> request list" where
  "ensureMutatingWebhookConfigFor WebhookPath IsNotFound ctx client config =
     (let key = \<lparr>NamespacedName.Namespace = '''', Name = DefaultingWebhookName\<rparr> in
      case GetMutating client ctx key of
        Inl err \<Rightarrow>
          if IsNotFound err
          then let obj = createMutatingWebhookConfiguration WebhookPath config in
               (Wrap (CreateMutating client ctx obj)
                  ''while creating webhook mutation configuration'',
                [GetMutatingRequest key, CreateMutatingRequest obj])
          else (Wrap (Some err)
                  (''failed to get defaulting MutatingWebhookConfiguration: ''
                     @ DefaultingWebhookName),
                [GetMutatingRequest key])
      | Inr mwhc \<Rightarrow>
          let ensuredMwhc = createMutatingWebhookConfiguration WebhookPath config in
          if \<not> (MutatingWebhookConfiguration.Webhooks ensuredMwhc
                  = MutatingWebhookConfiguration.Webhooks mwhc)
          then let ensuredMwhc = ensuredMwhc
                     \<lparr>MutatingWebhookConfiguration.ObjectMeta :=
                        MutatingWebhookConfiguration.ObjectMeta mwhc\<rparr> in
               (Wrap (UpdateMutating client ctx ensuredMwhc)
                  ''while updating webhook mutation configuration'',
                [GetMutatingRequest key, UpdateMutatingRequest ensuredMwhc])
          else (None, [GetMutatingRequest key]))"

definition ensureValidatingWebhookConfigFor ::
  "(error \<Rightarrow> bool) \<Rightarrow> Context \<Rightarrow> Client \<Rightarrow> WebhookConfig
     \<Rightarrow> error option \<times> request list" where
  "ensureValidatingWebhookConfigFor IsNotFound ctx client config =
     (let key = \<lparr>NamespacedName.Namespace = '''', Name = ValidationWebhookName\<rparr> in
      case GetValidating client ctx key of
        Inl err \<Rightarrow>
          if IsNotFound err
          then let obj = createValidatingWebhookConfiguration config in
               (CreateValidating client ctx obj,
                [GetValidatingRequest key, CreateValidatingRequest obj])
          else (Wrap (Some err)
                  (''failed to get validation ValidatingWebhookConfiguration: ''
                     @ ValidationWebhookName),
                [GetValidatingRequest key])
      | Inr vwhc \<Rightarrow>
          let ensuredVwhc = createValidatingWebhookConfiguration config in
          if \<not> (ValidatingWebhookConfiguration.Webhooks ensuredVwhc
                  = ValidatingWebhookConfiguration.Webhooks vwhc)
          then let ensuredVwhc = ensuredVwhc
                     \<lparr>ValidatingWebhookConfiguration.ObjectMeta :=
                        ValidatingWebhookConfiguration.ObjectMeta vwhc\<rparr> in
               (UpdateValidating client ctx ensuredVwhc,
                [GetValidatingRequest key, UpdateValidatingRequest ensuredVwhc])
          else (None, [GetValidatingRequest key]))"

definition EnsureWebhookConfigurationFor ::
  "string \<Rightarrow> (error \<Rightarrow> bool) \<Rightarrow> Context \<Rightarrow> Client \<Rightarrow> WebhookConfig \<Rightarrow> WebHookType
     \<Rightarrow> error option \<times> request list" where
  "EnsureWebhookConfigurationFor WebhookPath IsNotFound ctx client config wt =
     (if wt = MutatingWebhook
      then ensureMutatingWebhookConfigFor WebhookPath IsNotFound ctx client config
      else ensureValidatingWebhookConfigFor IsNotFound ctx client config)"

section \<open>Collaborators for the concrete runs\<close>

text \<open>
  A notary that answers every tag of every repository with one given set of hashes, one
  that cannot be reached, and one whose use is an error; a registry whose manifests all
  carry one given digest, and one whose use is an error.
\<close>

definition clientWithHashes :: "(string, byte list) alist \<Rightarrow> NotaryRepoClient" where
  "clientWithHashes hs = \<lparr>GetTargetByName = \<lambda>tag. Inr \<lparr>Hashes = hs\<rparr>\<rparr>"

definition notaryWithHashes :: "(string, byte list) alist \<Rightarrow> unit RepoFactory" where
  "notaryWithHashes hs = \<lparr>NewRepoClient = \<lambda>repo cfg. Inr (clientWithHashes hs)\<rparr>"

definition clientNoTrustData :: NotaryRepoClient where
  "clientNoTrustData =
     \<lparr>GetTargetByName = \<lambda>tag. Inl (ErrNew ''does not have trust data for'')\<rparr>"

definition notaryNoTrustData :: "unit RepoFactory" where
  "notaryNoTrustData = \<lparr>NewRepoClient = \<lambda>repo cfg. Inr clientNoTrustData\<rparr>"

definition notaryNoSuchHost :: "unit RepoFactory" where
  "notaryNoSuchHost = \<lparr>NewRepoClient = \<lambda>repo cfg. Inl (ErrNew ''no such host'')\<rparr>"

definition notaryNotToBeCalled :: "unit RepoFactory" where
  "notaryNotToBeCalled = \<lparr>NewRepoClient = \<lambda>repo cfg. Inl (ErrNew ''it should not be called'')\<rparr>"

definition registryWithDigest :: "string \<Rightarrow> (string, string) remote" where
  "registryWithDigest h =
     \<lparr>ParseReference = \<lambda>s. Inr s,
      Image = \<lambda>ref. Inr ref,
      ImageManifest = \<lambda>i. Inr \<lparr>Config = \<lparr>Digest = \<lparr>Algorithm = ''sha256'', Hex = h\<rparr>\<rparr>\<rparr>\<rparr>"

definition registryNotToBeCalled :: "(string, string) remote" where
  "registryNotToBeCalled =
     \<lparr>ParseReference = \<lambda>s. Inl (ErrNew ''it should not be called''),
      Image = \<lambda>ref. Inl (ErrNew ''it should not be called''),
      ImageManifest = \<lambda>i. Inl (ErrNew ''it should not be called'')\<rparr>"

definition service :: "string list \<Rightarrow> unit RepoFactory \<Rightarrow> unit notaryService" where
  "service allowed factory =
     NewImageValidator \<lparr>NotaryConfig = (), AllowedRegistries = allowed\<rparr> factory"

definition sha256_only :: "byte list \<Rightarrow> (string, byte list) alist" where
  "sha256_only h = DAList.update ''sha256'' h DAList.empty"

definition sha256_and_sha512 :: "byte list \<Rightarrow> byte list \<Rightarrow> (string, byte list) alist" where
  "sha256_and_sha512 h h' = DAList.update ''sha512'' h' (DAList.update ''sha256'' h DAList.empty)"

text \<open>The digest of the repository's tests, \<open>TrustedImageHash\<close>, and its hexadecimal form.\<close>

definition TrustedImageHash :: "byte list" where
  "TrustedImageHash =
     [0xf3, 0x9b, 0x97, 0x9b, 0x23, 0x5e, 0xaf, 0xa4, 0x1e, 0x08, 0x49, 0x38, 0xe9, 0x6a, 0x09, 0x7c,
      0x03, 0x2e, 0x24, 0x8d, 0x29, 0xe3, 0x96, 0x8f, 0xcf, 0xd2, 0x98, 0x1a, 0xbe, 0x5f, 0x11, 0xa6]"

definition TrustedImageHex :: string where
  "TrustedImageHex = ''f39b979b235eafa41e084938e96a097c032e248d29e3968fcfd2981abe5f11a6''"

definition liveContext :: Context where
  "liveContext = \<lparr>Err = None\<rparr>"

definition expiredContext :: Context where
  "expiredContext = \<lparr>Err = Some DeadlineExceeded\<rparr>"

text \<open>
  A cluster client for the concrete runs: it answers the two fetches as given and
  accepts every write.
\<close>

definition clientAnswering ::
  "error + MutatingWebhookConfiguration \<Rightarrow> error + ValidatingWebhookConfiguration \<Rightarrow> Client" where
  "clientAnswering m v =
     \<lparr>GetMutating = \<lambda>ctx key. m,
      CreateMutating = \<lambda>ctx obj. None,
      UpdateMutating = \<lambda>ctx obj. None,
      GetValidating = \<lambda>ctx key. v,
      CreateValidating = \<lambda>ctx obj. None,
      UpdateValidating = \<lambda>ctx obj. None\<rparr>"

definition config1 :: WebhookConfig where
  "config1 = \<lparr>CABundel = Slice [0x01, 0x02], ServiceName = ''warden-admission'',
              ServiceNamespace = ''kyma-system''\<rparr>"

definition config2 :: WebhookConfig where
  "config2 = \<lparr>CABundel = Slice [0x03, 0x04], ServiceName = ''warden-admission'',
              ServiceNamespace = ''kyma-system''\<rparr>"

definition liveMeta :: "string \<Rightarrow> ObjectMeta" where
  "liveMeta n =
     \<lparr>ObjectMeta.Name = n, GenerateName = '''', Namespace = '''', UID = ''7f3c'',
      ResourceVersion = ''42'', Generation = 1,
      Labels = Some [(''app'', ''warden'')], Annotations = None\<rparr>"

definition liveMutating :: MutatingWebhookConfiguration where
  "liveMutating =
     \<lparr>MutatingWebhookConfiguration.ObjectMeta = liveMeta DefaultingWebhookName,
      Webhooks = MutatingWebhookConfiguration.Webhooks
                   (createMutatingWebhookConfiguration ''/defaulting/pods'' config1)\<rparr>"

definition liveValidating :: ValidatingWebhookConfiguration where
  "liveValidating =
     \<lparr>ValidatingWebhookConfiguration.ObjectMeta = liveMeta ValidationWebhookName,
      Webhooks = ValidatingWebhookConfiguration.Webhooks
                   (createValidatingWebhookConfiguration config1)\<rparr>"

definition defaultingKey :: NamespacedName where
  "defaultingKey = \<lparr>NamespacedName.Namespace = '''', Name = DefaultingWebhookName\<rparr>"

definition validationKey :: NamespacedName where
  "validationKey = \<lparr>NamespacedName.Namespace = '''', Name = ValidationWebhookName\<rparr>"

text \<open>
  \<open>apiErrors.IsNotFound\<close> for the concrete runs, after the API machinery: the reason and
  the code are those of the status error that the error is or wraps (an unknown reason
  and code 0 when there is none); not-found is the reason NotFound, or a reason that is
  not one of the known ones together with the code 404.
\<close>

definition StatusReasonUnknown :: StatusReason where
  "StatusReasonUnknown = []"

definition StatusReasonNotFound :: StatusReason where
  "StatusReasonNotFound = ''NotFound''"

definition StatusReasonForbidden :: StatusReason where
  "StatusReasonForbidden = ''Forbidden''"

definition knownReasons :: "StatusReason list" where
  "knownReasons =
     [''Unauthorized'', ''Forbidden'', ''NotFound'', ''AlreadyExists'', ''Conflict'', ''Gone'',
      ''Invalid'', ''ServerTimeout'', ''Timeout'', ''TooManyRequests'', ''BadRequest'',
      ''MethodNotAllowed'', ''NotAcceptable'', ''RequestEntityTooLarge'',
      ''UnsupportedMediaType'', ''InternalError'', ''Expired'', ''ServiceUnavailable'']"

fun reasonAndCodeForError :: "error \<Rightarrow> StatusReason \<times> int32" where
  "reasonAndCodeForError (ErrStatus r c m) = (r, c)"
| "reasonAndCodeForError (ErrWrap m e) = reasonAndCodeForError e"
| "reasonAndCodeForError (ErrNew m) = (StatusReasonUnknown, 0)"
| "reasonAndCodeForError (InvalidByteError b) = (StatusReasonUnknown, 0)"

definition apiErrors_IsNotFound :: "error \<Rightarrow> bool" where
  "apiErrors_IsNotFound err =
     (case reasonAndCodeForError err of
        (reason, code) \<Rightarrow>
          if reason = StatusReasonNotFound then True
          else if reason \<notin> set knownReasons \<and> code = 404 then True
          else False)"

definition errNotFound :: error where
  "errNotFound = ErrStatus StatusReasonNotFound 404 ''not found''"

definition errUnknown404 :: error where
  "errUnknown404 =
     ErrStatus StatusReasonUnknown 404 ''the server could not find the requested resource''"

definition errForbidden :: error where
  "errForbidden = ErrStatus StatusReasonForbidden 403 ''forbidden''"

section \<open>Facts about the library functions\<close>

subsection \<open>The constant-time comparison\<close>

lemma xor_word_eq_0_iff: "x XOR y = 0 \<longleftrightarrow> x = y" for x y :: "'a::len word"
proof
  assume "x XOR y = 0"
  then have "(x XOR y) XOR y = 0 XOR y" by simp
  then show "x = y" by (simp add: xor.assoc)
qed simp

lemma ucast_byte_bound: "unat (ucast (w :: byte) :: 32 word) = unat w"
  by (simp add: unsigned_ucast_eq take_bit_nat_eq_self_iff) (use unsigned_less [of w, where ?'a = nat] in simp)

lemma ConstantTimeByteEq_iff: "ConstantTimeByteEq x y = (if x = y then 1 else 0)"
proof (cases "x = y")
  case True
  then show ?thesis by (simp add: ConstantTimeByteEq_def)
next
  case False
  define u :: "32 word" where "u = ucast (x XOR y)"
  from False have "x XOR y \<noteq> 0" by (simp add: xor_word_eq_0_iff)
  then have "unat (x XOR y) \<noteq> 0" by (simp add: unat_eq_0)
  moreover have "unat (x XOR y) < 2 ^ 8" using unsigned_less [of "x XOR y", where ?'a = nat] by simp
  ultimately have u: "unat u \<noteq> 0" "unat u < 256"
    by (simp_all add: u_def ucast_byte_bound)
  then have "u \<noteq> 0" by (auto simp: unat_eq_0)
  then have "unat (u - 1) = unat u - 1" by (rule unat_minus_one)
  with u have "unat (u - 1) < 2 ^ 31" by simp
  then have "unat (drop_bit 31 (u - 1)) = 0"
    unfolding unat_drop_bit_eq by (simp add: drop_bit_eq_div)
  then have "drop_bit 31 (u - 1) = 0" by (simp add: unat_eq_0)
  with False show ?thesis by (simp add: ConstantTimeByteEq_def u_def)
qed

lemma ConstantTimeCompare_loop_zero_iff:
  "ConstantTimeCompare_loop x y i v = 0 \<longleftrightarrow>
     v = 0 \<and> (\<forall>j. i \<le> j \<and> j < length x \<longrightarrow> x ! j = y ! j)"
proof (induction x y i v rule: ConstantTimeCompare_loop.induct)
  case (1 x y i v)
  show ?case
  proof (cases "i < length x")
    case True
    have split: "(\<forall>j. i \<le> j \<and> j < length x \<longrightarrow> x ! j = y ! j) \<longleftrightarrow>
          x ! i = y ! i \<and> (\<forall>j. i + 1 \<le> j \<and> j < length x \<longrightarrow> x ! j = y ! j)"
      (is "?L \<longleftrightarrow> ?R")
    proof
      assume ?L
      with True show ?R by simp
    next
      assume r: ?R
      show ?L
      proof (intro allI impI)
        fix j assume "i \<le> j \<and> j < length x"
        then consider "j = i" | "i + 1 \<le> j \<and> j < length x" by force
        then show "x ! j = y ! j" using r by cases auto
      qed
    qed
    have "ConstantTimeCompare_loop x y i v
            = ConstantTimeCompare_loop x y (i + 1) (v OR (x ! i XOR y ! i))"
      using True by (subst ConstantTimeCompare_loop.simps) simp
    also have "\<dots> = 0 \<longleftrightarrow> (v OR (x ! i XOR y ! i)) = 0 \<and>
        (\<forall>j. i + 1 \<le> j \<and> j < length x \<longrightarrow> x ! j = y ! j)"
      using 1 True by simp
    finally show ?thesis
      by (simp add: or_eq_0_iff xor_word_eq_0_iff split conj_commute)
  next
    case False
    then show ?thesis by (subst ConstantTimeCompare_loop.simps) auto
  qed
qed

text \<open>
  As a function of the two sequences the comparison is their equality. How many bytes
  it reads and in which order, which is what tells it from a comparison that stops at
  the first difference, is not a property of the value it returns.
\<close>

lemma ConstantTimeCompare_iff: "ConstantTimeCompare x y = (if x = y then 1 else 0)"
proof (cases "length x = length y")
  case False
  then show ?thesis by (auto simp: ConstantTimeCompare_def)
next
  case True
  have "ConstantTimeCompare_loop x y 0 0 = 0 \<longleftrightarrow> x = y"
    using True by (simp add: ConstantTimeCompare_loop_zero_iff list_eq_iff_nth_eq)
  with True show ?thesis
    by (auto simp: ConstantTimeCompare_def ConstantTimeByteEq_iff)
qed

subsection \<open>Prefixes and splitting on a one-byte separator\<close>

lemma HasPrefix_iff_append: "HasPrefix s pre \<longleftrightarrow> (\<exists>t. s = pre @ t)"
proof
  assume "HasPrefix s pre"
  then have "s = pre @ drop (length pre) s"
    by (metis HasPrefix_def append_take_drop_id)
  then show "\<exists>t. s = pre @ t" ..
next
  assume "\<exists>t. s = pre @ t"
  then show "HasPrefix s pre" by (auto simp: HasPrefix_def)
qed

lemma HasPrefix_empty: "HasPrefix s []"
  by (simp add: HasPrefix_def)

lemma HasPrefix_single: "HasPrefix (c # cs) [d] \<longleftrightarrow> c = d"
  by (auto simp: HasPrefix_def)

lemma Index_single_None: "Index s [c] = None \<longleftrightarrow> c \<notin> set s"
  by (induction s) (auto simp: HasPrefix_single)

lemma Index_single_append:
  "c \<notin> set a \<Longrightarrow> Index (a @ c # b) [c] = Some (length a)"
  by (induction a) (auto simp: HasPrefix_single)

lemma Index_single_Some:
  "Index s [c] = Some m \<Longrightarrow> s = take m s @ c # drop (Suc m) s \<and> c \<notin> set (take m s)"
proof (induction s arbitrary: m)
  case Nil
  then show ?case by simp
next
  case (Cons d ds)
  show ?case
  proof (cases "d = c")
    case True
    with Cons.prems show ?thesis by (simp add: HasPrefix_single)
  next
    case False
    with Cons.prems obtain k where k: "Index ds [c] = Some k" "m = Suc k"
      by (auto simp: HasPrefix_single)
    from Cons.IH [OF k(1)] k(2) False show ?thesis by simp
  qed
qed

lemma length_Split_single: "length (Split s [c]) = count_list s c + 1"
proof (induction s "[c]" rule: Split.induct)
  case (1 s)
  show ?case
  proof (cases "Index s [c]")
    case None
    then have "c \<notin> set s" by (simp add: Index_single_None)
    then have "count_list s c = 0" by (simp add: count_list_0_iff)
    with None show ?thesis by (subst Split.simps) simp
  next
    case (Some m)
    from Index_single_Some [OF Some]
    have s: "s = take m s @ c # drop (Suc m) s" and notin: "c \<notin> set (take m s)"
      by simp_all
    have "count_list s c = count_list (take m s @ c # drop (Suc m) s) c"
      using s by simp
    also have "\<dots> = Suc (count_list (drop (Suc m) s) c)"
      using notin by (simp add: count_list_0_iff)
    finally have cnt: "count_list s c = Suc (count_list (drop (Suc m) s) c)" .
    have "length (Split (drop (m + length [c]) s) [c])
            = count_list (drop (m + length [c]) s) c + 1"
      using Some by (intro 1) simp_all
    with Some cnt show ?thesis by (subst Split.simps) simp
  qed
qed

lemma Split_one_delim:
  assumes "c \<notin> set a" and "c \<notin> set b"
  shows "Split (a @ c # b) [c] = [a, b]"
proof -
  from assms(2) have "Index b [c] = None" by (simp add: Index_single_None)
  then have b: "Split b [c] = [b]" by (subst Split.simps) simp
  from assms(1) have "Index (a @ c # b) [c] = Some (length a)"
    by (rule Index_single_append)
  then show ?thesis using b by (subst Split.simps) simp
qed

text \<open>
  A string in which the separator occurs exactly once is a part without it, the
  separator, and another part without it. The claims about references with exactly one
  \<open>:\<close> are stated on this decomposition.
\<close>

lemma count_list_one_decompose:
  "count_list s c = 1 \<Longrightarrow> \<exists>a b. s = a @ c # b \<and> c \<notin> set a \<and> c \<notin> set b"
proof (induction s)
  case Nil
  then show ?case by simp
next
  case (Cons d ds)
  show ?case
  proof (cases "d = c")
    case True
    with Cons.prems have "count_list ds c = 0" by simp
    then have "c \<notin> set ds" by (simp add: count_list_0_iff)
    with True have "d # ds = [] @ c # ds \<and> c \<notin> set [] \<and> c \<notin> set ds" by simp
    then show ?thesis by blast
  next
    case False
    with Cons.prems have "count_list ds c = 1" by simp
    from Cons.IH [OF this] obtain a b where "ds = a @ c # b" "c \<notin> set a" "c \<notin> set b"
      by blast
    with False have "d # ds = (d # a) @ c # b \<and> c \<notin> set (d # a) \<and> c \<notin> set b" by simp
    then show ?thesis by blast
  qed
qed

lemma isImageAllowed_loop_iff:
  "isImageAllowed_loop as imgRepo \<longleftrightarrow> (\<exists>a \<in> set as. HasPrefix imgRepo a)"
  by (induction as) auto

section \<open>Facts about the validator\<close>

lemma Split_reference:
  assumes "img = repo @ tagDelim @ tag"
    and "CHR '':'' \<notin> set repo" and "CHR '':'' \<notin> set tag"
  shows "Split img tagDelim = [repo, tag]"
  using Split_one_delim [OF assms(2,3)] assms(1) by (simp add: tagDelim_def)

lemma isImageAllowed_iff:
  "isImageAllowed s imgRepo \<longleftrightarrow> (\<exists>a \<in> set (AllowedRegistries s). HasPrefix imgRepo a)"
  by (simp add: isImageAllowed_def isImageAllowed_loop_iff)

lemma Validate_reference:
  assumes "Split img tagDelim = [repo, tag]"
  shows "Validate lib s ctx img =
     (if isImageAllowed s repo then (None, [])
      else case getNotaryImageDigestHash s ctx repo tag of
        (Inl err, calls) \<Rightarrow> (Some err, calls)
      | (Inr expectedShaBytes, calls) \<Rightarrow>
         (case getImageDigestHash lib img of
            (Inl err, calls') \<Rightarrow> (Some err, calls @ calls')
          | (Inr shaBytes, calls') \<Rightarrow>
              if shaBytes = expectedShaBytes then (None, calls @ calls')
              else (Some (ErrNew ''unexpected image hash value''), calls @ calls')))"
  using assms
  by (simp add: Validate_def Let_def ConstantTimeCompare_iff
      split: prod.splits sum.splits)

lemma getNotaryImageDigestHash_AllowedRegistries:
  "getNotaryImageDigestHash (s\<lparr>AllowedRegistries := as\<rparr>) ctx imgRepo imgTag
     = getNotaryImageDigestHash s ctx imgRepo imgTag"
  by (simp add: getNotaryImageDigestHash_def)

lemma isImageAllowed_set:
  "set as = set (AllowedRegistries s) \<Longrightarrow>
     isImageAllowed (s\<lparr>AllowedRegistries := as\<rparr>) imgRepo = isImageAllowed s imgRepo"
  by (simp add: isImageAllowed_iff)

lemma Validate_AllowedRegistries_set:
  assumes "set as = set (AllowedRegistries s)"
  shows "Validate lib (s\<lparr>AllowedRegistries := as\<rparr>) ctx img = Validate lib s ctx img"
  unfolding Validate_def Let_def
  by (simp only: isImageAllowed_set [OF assms] getNotaryImageDigestHash_AllowedRegistries)

lemma getNotaryImageDigestHash_context:
  "getNotaryImageDigestHash s ctx imgRepo imgTag = getNotaryImageDigestHash s ctx' imgRepo imgTag"
  by (simp add: getNotaryImageDigestHash_def)

lemma Validate_context: "Validate lib s ctx img = Validate lib s ctx' img"
  unfolding Validate_def
  by (simp only: getNotaryImageDigestHash_context [of s ctx _ _ ctx'])

subsection \<open>The concrete collaborators\<close>

lemma service_record:
  "service allowed factory =
     \<lparr>NotaryConfig = (), AllowedRegistries = allowed, RepoFactory = factory\<rparr>"
  by (simp add: service_def NewImageValidator_def)

lemma len_map_sha256_only: "len_map (sha256_only h) = 1"
  by (simp add: len_map_def sha256_only_def update.rep_eq empty.rep_eq)

lemma getNotaryImageDigestHash_notaryWithHashes:
  "repo \<noteq> [] \<Longrightarrow> tag \<noteq> [] \<Longrightarrow>
   getNotaryImageDigestHash (service allowed (notaryWithHashes (sha256_only h))) ctx repo tag
     = (Inr h, [CallNewRepoClient repo, CallGetTargetByName tag])"
  by (simp add: getNotaryImageDigestHash_def service_record notaryWithHashes_def
      clientWithHashes_def len_map_sha256_only index_map_def)
     (simp add: sha256_only_def update.rep_eq empty.rep_eq lookup.rep_eq)

lemma DecodeString_deadbeef: "DecodeString ''deadbeef'' = Inr [0xde, 0xad, 0xbe, 0xef]"
  by (simp add: reverseHexTable_def)

lemma DecodeString_deadbeee: "DecodeString ''deadbeee'' = Inr [0xde, 0xad, 0xbe, 0xee]"
  by (simp add: reverseHexTable_def)

lemma DecodeString_TrustedImageHex: "DecodeString TrustedImageHex = Inr TrustedImageHash"
  by (simp add: TrustedImageHex_def TrustedImageHash_def reverseHexTable_def)

lemma getImageDigestHash_registryWithDigest:
  "img \<noteq> [] \<Longrightarrow> DecodeString h = Inr bytes \<Longrightarrow>
   getImageDigestHash (registryWithDigest h) img
     = (Inr bytes, [CallParseReference img, CallRemoteImage, CallManifest])"
  by (simp add: getImageDigestHash_def registryWithDigest_def)

subsection \<open>The repository's tests of malformed and allowed names, replayed\<close>

lemma Test_Validate_InvalidImageName_without_colon:
  "fst (Validate (registryWithDigest ''deadbeef'')
          (service [] (notaryWithHashes (sha256_only [0xde, 0xad, 0xbe, 0xef])))
          liveContext ''makapaka'')
     = Some (ErrNew ''image name is not formatted correctly'')"
proof -
  have "Split ''makapaka'' tagDelim = [''makapaka'']"
    by (subst Split.simps) (simp add: tagDelim_def HasPrefix_def)
  then show ?thesis by (simp add: Validate_def)
qed

lemma Test_Validate_InvalidImageName_only_colon:
  "fst (Validate (registryWithDigest ''deadbeef'')
          (service [] (notaryWithHashes (sha256_only [0xde, 0xad, 0xbe, 0xef])))
          liveContext '':'')
     = Some (ErrNew ''empty arguments provided'')"
proof -
  have "Split '':'' tagDelim = [[], []]"
    by (rule Split_reference) (simp_all add: tagDelim_def)
  then show ?thesis
    by (simp add: Validate_reference isImageAllowed_def service_record
        getNotaryImageDigestHash_def)
qed

lemma Test_Validate_allowed_prefix:
  "Validate registryNotToBeCalled (service [''some-registry/allowed-''] notaryNotToBeCalled)
     liveContext ''some-registry/allowed-image-name:stable'' = (None, [])"
proof -
  have "Split ''some-registry/allowed-image-name:stable'' tagDelim
          = [''some-registry/allowed-image-name'', ''stable'']"
    by (rule Split_reference) (simp_all add: tagDelim_def)
  then show ?thesis
    by (simp add: Validate_reference isImageAllowed_def service_record HasPrefix_def)
qed

section \<open>The claims about the image validator\<close>

text \<open>
  C1. For an image reference with exactly one \<open>:\<close> whose repository is not allowed,
  once the trust lookup has returned a digest and the registry fetch has returned a
  digest, Validate returns nil when the two byte sequences are equal and the error
  "unexpected image hash value" when they are not.
\<close>

theorem C1_digest_comparison_decides:
  assumes "img = repo @ tagDelim @ tag"
    and "CHR '':'' \<notin> set repo" and "CHR '':'' \<notin> set tag"
    and "\<not> isImageAllowed s repo"
    and "fst (getNotaryImageDigestHash s ctx repo tag) = Inr expectedShaBytes"
    and "fst (getImageDigestHash lib img) = Inr shaBytes"
  shows "fst (Validate lib s ctx img) =
           (if shaBytes = expectedShaBytes then None
            else Some (ErrNew ''unexpected image hash value''))"
proof -
  have split: "Split img tagDelim = [repo, tag]"
    using assms(1-3) by (rule Split_reference)
  obtain calls where notary:
    "getNotaryImageDigestHash s ctx repo tag = (Inr expectedShaBytes, calls)"
    using assms(5) by (cases "getNotaryImageDigestHash s ctx repo tag") simp
  obtain calls' where registry: "getImageDigestHash lib img = (Inr shaBytes, calls')"
    using assms(6) by (cases "getImageDigestHash lib img") simp
  show ?thesis
    by (simp add: Validate_reference [OF split] assms(4) notary registry)
qed

theorem C1_witness:
  "fst (Validate (registryWithDigest ''deadbeef'')
          (service [''some-allowed/''] (notaryWithHashes (sha256_only [0xde, 0xad, 0xbe, 0xef])))
          liveContext ''eu.gcr.io/proj/app:v1'') = None
   \<and> fst (Validate (registryWithDigest ''deadbeee'')
          (service [''some-allowed/''] (notaryWithHashes (sha256_only [0xde, 0xad, 0xbe, 0xef])))
          liveContext ''eu.gcr.io/proj/app:v1'')
       = Some (ErrNew ''unexpected image hash value'')"
proof -
  let ?s = "service [''some-allowed/''] (notaryWithHashes (sha256_only [0xde, 0xad, 0xbe, 0xef]))"
  let ?img = "''eu.gcr.io/proj/app:v1''"
  have h1: "?img = ''eu.gcr.io/proj/app'' @ tagDelim @ ''v1''"
    by (simp add: tagDelim_def)
  have h2: "CHR '':'' \<notin> set ''eu.gcr.io/proj/app''" by simp
  have h3: "CHR '':'' \<notin> set ''v1''" by simp
  have h4: "\<not> isImageAllowed ?s ''eu.gcr.io/proj/app''"
    by (simp add: isImageAllowed_def service_record HasPrefix_def)
  have h5: "fst (getNotaryImageDigestHash ?s liveContext ''eu.gcr.io/proj/app'' ''v1'')
              = Inr [0xde, 0xad, 0xbe, 0xef]"
    by (simp add: getNotaryImageDigestHash_notaryWithHashes)
  have h6: "fst (getImageDigestHash (registryWithDigest ''deadbeef'') ?img)
              = Inr [0xde, 0xad, 0xbe, 0xef]"
    by (simp add: getImageDigestHash_registryWithDigest [OF _ DecodeString_deadbeef])
  have h6': "fst (getImageDigestHash (registryWithDigest ''deadbeee'') ?img)
              = Inr [0xde, 0xad, 0xbe, 0xee]"
    by (simp add: getImageDigestHash_registryWithDigest [OF _ DecodeString_deadbeee])
  from C1_digest_comparison_decides [OF h1 h2 h3 h4 h5 h6]
    C1_digest_comparison_decides [OF h1 h2 h3 h4 h5 h6']
  show ?thesis by simp
qed

text \<open>
  C2. For an image reference with exactly one \<open>:\<close> whose repository starts with an
  entry of AllowedRegistries, Validate returns nil and has called neither the trust
  client nor the registry; and putting the entries of AllowedRegistries in another
  order changes the outcome of Validate for no image.
\<close>

theorem C2_allowed_registry_bypass:
  assumes "img = repo @ tagDelim @ tag"
    and "CHR '':'' \<notin> set repo" and "CHR '':'' \<notin> set tag"
    and "a \<in> set (AllowedRegistries s)" and "HasPrefix repo a"
  shows "Validate lib s ctx img = (None, []) \<and>
         (\<forall>as img'. mset as = mset (AllowedRegistries s) \<longrightarrow>
            Validate lib (s\<lparr>AllowedRegistries := as\<rparr>) ctx img' = Validate lib s ctx img')"
proof
  have "Split img tagDelim = [repo, tag]"
    using assms(1-3) by (rule Split_reference)
  moreover have "isImageAllowed s repo"
    using assms(4,5) by (auto simp: isImageAllowed_iff)
  ultimately show "Validate lib s ctx img = (None, [])"
    by (simp add: Validate_reference)
next
  show "\<forall>as img'. mset as = mset (AllowedRegistries s) \<longrightarrow>
          Validate lib (s\<lparr>AllowedRegistries := as\<rparr>) ctx img' = Validate lib s ctx img'"
  proof (intro allI impI)
    fix as img'
    assume "mset as = mset (AllowedRegistries s)"
    then have "set as = set (AllowedRegistries s)" by (rule mset_eq_setD)
    then show "Validate lib (s\<lparr>AllowedRegistries := as\<rparr>) ctx img' = Validate lib s ctx img'"
      by (rule Validate_AllowedRegistries_set)
  qed
qed

theorem C2_witness:
  "Validate registryNotToBeCalled
     (service [''some-registry/allowed-image-1'', ''some-registry/allowed-image-name'',
               ''some-registry/allowed-image-3''] notaryNotToBeCalled)
     liveContext ''some-registry/allowed-image-name:latest'' = (None, [])
   \<and> Validate registryNotToBeCalled
     (service [''some-registry/allowed-image-3'', ''some-registry/allowed-image-name'',
               ''some-registry/allowed-image-1''] notaryNotToBeCalled)
     liveContext ''some-registry/allowed-image-name:latest'' = (None, [])"
proof -
  let ?as = "[''some-registry/allowed-image-1'', ''some-registry/allowed-image-name'',
              ''some-registry/allowed-image-3'']"
  let ?as' = "[''some-registry/allowed-image-3'', ''some-registry/allowed-image-name'',
               ''some-registry/allowed-image-1'']"
  let ?s = "service ?as notaryNotToBeCalled"
  let ?img = "''some-registry/allowed-image-name:latest''"
  have h1: "?img = ''some-registry/allowed-image-name'' @ tagDelim @ ''latest''"
    by (simp add: tagDelim_def)
  have h2: "CHR '':'' \<notin> set ''some-registry/allowed-image-name''" by simp
  have h3: "CHR '':'' \<notin> set ''latest''" by simp
  have h4: "''some-registry/allowed-image-name'' \<in> set (AllowedRegistries ?s)"
    by (simp add: service_record)
  have h5: "HasPrefix ''some-registry/allowed-image-name'' ''some-registry/allowed-image-name''"
    by (simp add: HasPrefix_def)
  have perm: "mset ?as' = mset (AllowedRegistries ?s)"
    by (simp add: service_record add.commute)
  have upd: "?s\<lparr>AllowedRegistries := ?as'\<rparr> = service ?as' notaryNotToBeCalled"
    by (simp add: service_record)
  note c2 = C2_allowed_registry_bypass
    [OF h1 h2 h3 h4 h5, of registryNotToBeCalled liveContext]
  from c2 have first: "Validate registryNotToBeCalled ?s liveContext ?img = (None, [])"
    by (rule conjunct1)
  from c2 perm
  have "Validate registryNotToBeCalled (?s\<lparr>AllowedRegistries := ?as'\<rparr>) liveContext ?img
          = Validate registryNotToBeCalled ?s liveContext ?img"
    by blast
  with first upd show ?thesis by simp
qed

text \<open>
  C4. An input in which \<open>:\<close> does not occur exactly once (not at all, or twice or
  more, as in a registry address with a port) is not split into exactly two parts, and
  Validate fails with "image name is not formatted correctly" whatever the allow list
  is and without any call to a collaborator.
\<close>

theorem C4_malformed_reference:
  assumes "count_list img (CHR '':'') \<noteq> 1"
  shows "length (Split img tagDelim) \<noteq> 2 \<and>
         Validate lib s ctx img
           = (Some (ErrNew ''image name is not formatted correctly''), [])"
proof -
  have "length (Split img tagDelim) = count_list img (CHR '':'') + 1"
    by (simp add: tagDelim_def length_Split_single)
  with assms have "length (Split img tagDelim) \<noteq> 2" by simp
  then show ?thesis by (simp add: Validate_def)
qed

theorem C4_witness:
  "Validate registryNotToBeCalled (service [''''] notaryNotToBeCalled) liveContext
     ''repo:port/image-name:tag''
     = (Some (ErrNew ''image name is not formatted correctly''), [])
   \<and> Validate registryNotToBeCalled (service [''''] notaryNotToBeCalled) liveContext
     ''makapaka''
     = (Some (ErrNew ''image name is not formatted correctly''), [])"
proof -
  have h: "count_list ''repo:port/image-name:tag'' (CHR '':'') \<noteq> 1" by simp
  have h': "count_list ''makapaka'' (CHR '':'') \<noteq> 1" by simp
  from C4_malformed_reference [OF h] C4_malformed_reference [OF h']
  show ?thesis by blast
qed

text \<open>
  C10. When the empty string is an entry of AllowedRegistries, Validate returns nil for
  every image reference with exactly one \<open>:\<close>, without any call to the trust client or
  the registry.
\<close>

theorem C10_empty_entry_allows_all:
  assumes "img = repo @ tagDelim @ tag"
    and "CHR '':'' \<notin> set repo" and "CHR '':'' \<notin> set tag"
    and "[] \<in> set (AllowedRegistries s)"
  shows "Validate lib s ctx img = (None, [])"
proof -
  have "Split img tagDelim = [repo, tag]"
    using assms(1-3) by (rule Split_reference)
  moreover have "isImageAllowed s repo"
    using assms(4) HasPrefix_empty [of repo] by (auto simp: isImageAllowed_iff)
  ultimately show ?thesis by (simp add: Validate_reference)
qed

theorem C10_witness:
  "Validate registryNotToBeCalled (service [''some-allowed/'', ''''] notaryNotToBeCalled)
     liveContext ''nginx:latest'' = (None, [])"
proof -
  have h1: "''nginx:latest'' = ''nginx'' @ tagDelim @ ''latest''"
    by (simp add: tagDelim_def)
  have h2: "CHR '':'' \<notin> set ''nginx''" by simp
  have h3: "CHR '':'' \<notin> set ''latest''" by simp
  have h4: "[] \<in> set (AllowedRegistries (service [''some-allowed/'', ''''] notaryNotToBeCalled))"
    by (simp add: service_record)
  from C10_empty_entry_allows_all [OF h1 h2 h3 h4] show ?thesis .
qed

text \<open>
  C5, as the code has it. The trust lookup fails with "empty arguments provided"
  whenever the repository or the tag is empty. With both non-empty, an error of the
  client factory or of the target lookup is returned as it is; once a target is
  returned, the step fails with "image hash is missing" when the target has no hash
  entry and with "more than one hash for image" when it has more than one, and it
  returns a digest, the bytes of the only entry, exactly when the target has one entry.
\<close>

theorem C5_trust_lookup_outcomes:
  "(imgRepo = [] \<or> imgTag = [] \<longrightarrow>
      getNotaryImageDigestHash s ctx imgRepo imgTag
        = (Inl (ErrNew ''empty arguments provided''), []))
   \<and> (imgRepo \<noteq> [] \<and> imgTag \<noteq> [] \<longrightarrow>
      (\<forall>err. NewRepoClient (RepoFactory s) imgRepo (NotaryConfig s) = Inl err \<longrightarrow>
         fst (getNotaryImageDigestHash s ctx imgRepo imgTag) = Inl err)
      \<and> (\<forall>c. NewRepoClient (RepoFactory s) imgRepo (NotaryConfig s) = Inr c \<longrightarrow>
           (\<forall>err. GetTargetByName c imgTag = Inl err \<longrightarrow>
              fst (getNotaryImageDigestHash s ctx imgRepo imgTag) = Inl err)
           \<and> (\<forall>target. GetTargetByName c imgTag = Inr target \<longrightarrow>
                (len_map (Hashes target) = 0 \<longrightarrow>
                   fst (getNotaryImageDigestHash s ctx imgRepo imgTag)
                     = Inl (ErrNew ''image hash is missing''))
                \<and> (len_map (Hashes target) > 1 \<longrightarrow>
                     fst (getNotaryImageDigestHash s ctx imgRepo imgTag)
                       = Inl (ErrNew ''more than one hash for image''))
                \<and> (\<forall>key digest. DAList.impl_of (Hashes target) = [(key, digest)] \<longrightarrow>
                     fst (getNotaryImageDigestHash s ctx imgRepo imgTag) = Inr digest)
                \<and> ((\<exists>digest. fst (getNotaryImageDigestHash s ctx imgRepo imgTag) = Inr digest)
                     \<longleftrightarrow> len_map (Hashes target) = 1))))"
proof (intro conjI impI allI)
  assume "imgRepo = [] \<or> imgTag = []"
  then show "getNotaryImageDigestHash s ctx imgRepo imgTag
               = (Inl (ErrNew ''empty arguments provided''), [])"
    by (auto simp: getNotaryImageDigestHash_def)
next
  fix err
  assume "imgRepo \<noteq> [] \<and> imgTag \<noteq> []"
    and "NewRepoClient (RepoFactory s) imgRepo (NotaryConfig s) = Inl err"
  then show "fst (getNotaryImageDigestHash s ctx imgRepo imgTag) = Inl err"
    by (simp add: getNotaryImageDigestHash_def)
next
  fix c err
  assume "imgRepo \<noteq> [] \<and> imgTag \<noteq> []"
    and "NewRepoClient (RepoFactory s) imgRepo (NotaryConfig s) = Inr c"
    and "GetTargetByName c imgTag = Inl err"
  then show "fst (getNotaryImageDigestHash s ctx imgRepo imgTag) = Inl err"
    by (simp add: getNotaryImageDigestHash_def)
next
  fix c target
  assume "imgRepo \<noteq> [] \<and> imgTag \<noteq> []"
    and "NewRepoClient (RepoFactory s) imgRepo (NotaryConfig s) = Inr c"
    and "GetTargetByName c imgTag = Inr target"
    and "len_map (Hashes target) = 0"
  then show "fst (getNotaryImageDigestHash s ctx imgRepo imgTag)
               = Inl (ErrNew ''image hash is missing'')"
    by (simp add: getNotaryImageDigestHash_def)
next
  fix c target
  assume "imgRepo \<noteq> [] \<and> imgTag \<noteq> []"
    and "NewRepoClient (RepoFactory s) imgRepo (NotaryConfig s) = Inr c"
    and "GetTargetByName c imgTag = Inr target"
    and "len_map (Hashes target) > 1"
  then show "fst (getNotaryImageDigestHash s ctx imgRepo imgTag)
               = Inl (ErrNew ''more than one hash for image'')"
    by (simp add: getNotaryImageDigestHash_def)
next
  fix c target key digest
  assume "imgRepo \<noteq> [] \<and> imgTag \<noteq> []"
    and "NewRepoClient (RepoFactory s) imgRepo (NotaryConfig s) = Inr c"
    and "GetTargetByName c imgTag = Inr target"
    and "DAList.impl_of (Hashes target) = [(key, digest)]"
  then show "fst (getNotaryImageDigestHash s ctx imgRepo imgTag) = Inr digest"
    by (simp add: getNotaryImageDigestHash_def len_map_def index_map_def lookup.rep_eq)
next
  fix c target
  assume *: "imgRepo \<noteq> [] \<and> imgTag \<noteq> []"
    "NewRepoClient (RepoFactory s) imgRepo (NotaryConfig s) = Inr c"
    "GetTargetByName c imgTag = Inr target"
  show "(\<exists>digest. fst (getNotaryImageDigestHash s ctx imgRepo imgTag) = Inr digest)
          \<longleftrightarrow> len_map (Hashes target) = 1"
  proof (cases "len_map (Hashes target) = 1")
    case True
    with * show ?thesis by (simp add: getNotaryImageDigestHash_def Let_def)
  next
    case False
    then have "len_map (Hashes target) = 0 \<or> len_map (Hashes target) > 1" by arith
    with * False show ?thesis by (auto simp: getNotaryImageDigestHash_def)
  qed
qed

theorem C5_witness:
  "getNotaryImageDigestHash (service [] notaryNotToBeCalled) liveContext [] ''latest''
     = (Inl (ErrNew ''empty arguments provided''), [])
   \<and> fst (getNotaryImageDigestHash (service [] notaryNoSuchHost) liveContext
            ''nginx'' ''latest'') = Inl (ErrNew ''no such host'')
   \<and> fst (getNotaryImageDigestHash (service [] notaryNoTrustData) liveContext
            ''nginx'' ''latest'') = Inl (ErrNew ''does not have trust data for'')
   \<and> fst (getNotaryImageDigestHash (service [] (notaryWithHashes DAList.empty)) liveContext
            ''nginx'' ''latest'') = Inl (ErrNew ''image hash is missing'')
   \<and> fst (getNotaryImageDigestHash
            (service [] (notaryWithHashes (sha256_and_sha512 [0xde, 0xad] [0xbe, 0xef])))
            liveContext ''nginx'' ''latest'') = Inl (ErrNew ''more than one hash for image'')
   \<and> fst (getNotaryImageDigestHash
            (service [] (notaryWithHashes (sha256_only [0xde, 0xad]))) liveContext
            ''nginx'' ''latest'') = Inr [0xde, 0xad]"
proof -
  have ne: "''nginx'' \<noteq> [] \<and> ''latest'' \<noteq> []" by simp
  have e: "[] = ([] :: string) \<or> ''latest'' = []" by simp
  have noHost: "NewRepoClient (RepoFactory (service [] notaryNoSuchHost)) ''nginx''
                  (NotaryConfig (service [] notaryNoSuchHost)) = Inl (ErrNew ''no such host'')"
    by (simp add: service_record notaryNoSuchHost_def)
  have noTrust: "NewRepoClient (RepoFactory (service [] notaryNoTrustData)) ''nginx''
                  (NotaryConfig (service [] notaryNoTrustData)) = Inr clientNoTrustData"
    "GetTargetByName clientNoTrustData ''latest'' = Inl (ErrNew ''does not have trust data for'')"
    by (simp_all add: service_record notaryNoTrustData_def clientNoTrustData_def)
  have factory: "NewRepoClient (RepoFactory (service [] (notaryWithHashes hs))) ''nginx''
                  (NotaryConfig (service [] (notaryWithHashes hs))) = Inr (clientWithHashes hs)"
    for hs by (simp add: service_record notaryWithHashes_def)
  have target: "GetTargetByName (clientWithHashes hs) ''latest'' = Inr \<lparr>Hashes = hs\<rparr>"
    for hs by (simp add: clientWithHashes_def)
  have none: "len_map (Hashes \<lparr>Hashes = DAList.empty\<rparr>) = 0"
    by (simp add: len_map_def empty.rep_eq)
  have two: "len_map (Hashes \<lparr>Hashes = sha256_and_sha512 [0xde, 0xad] [0xbe, 0xef]\<rparr>) > 1"
    by (simp add: len_map_def sha256_and_sha512_def update.rep_eq empty.rep_eq)
  have one: "DAList.impl_of (Hashes \<lparr>Hashes = sha256_only [0xde, 0xad]\<rparr>)
               = [(''sha256'', [0xde, 0xad])]"
    by (simp add: sha256_only_def update.rep_eq empty.rep_eq)
  from e C5_trust_lookup_outcomes [of "[]" "''latest''" "service [] notaryNotToBeCalled" liveContext]
  have c1: "getNotaryImageDigestHash (service [] notaryNotToBeCalled) liveContext [] ''latest''
              = (Inl (ErrNew ''empty arguments provided''), [])"
    by blast
  from ne noHost
    C5_trust_lookup_outcomes [of "''nginx''" "''latest''" "service [] notaryNoSuchHost" liveContext]
  have c2: "fst (getNotaryImageDigestHash (service [] notaryNoSuchHost) liveContext
                  ''nginx'' ''latest'') = Inl (ErrNew ''no such host'')"
    by blast
  from ne noTrust
    C5_trust_lookup_outcomes [of "''nginx''" "''latest''" "service [] notaryNoTrustData" liveContext]
  have c3: "fst (getNotaryImageDigestHash (service [] notaryNoTrustData) liveContext
                  ''nginx'' ''latest'') = Inl (ErrNew ''does not have trust data for'')"
    by blast
  from ne factory target none
    C5_trust_lookup_outcomes [of "''nginx''" "''latest''"
      "service [] (notaryWithHashes DAList.empty)" liveContext]
  have c4: "fst (getNotaryImageDigestHash (service [] (notaryWithHashes DAList.empty))
                  liveContext ''nginx'' ''latest'') = Inl (ErrNew ''image hash is missing'')"
    by blast
  from ne factory target two
    C5_trust_lookup_outcomes [of "''nginx''" "''latest''"
      "service [] (notaryWithHashes (sha256_and_sha512 [0xde, 0xad] [0xbe, 0xef]))" liveContext]
  have c5: "fst (getNotaryImageDigestHash
                  (service [] (notaryWithHashes (sha256_and_sha512 [0xde, 0xad] [0xbe, 0xef])))
                  liveContext ''nginx'' ''latest'')
              = Inl (ErrNew ''more than one hash for image'')"
    by blast
  from ne factory target one
    C5_trust_lookup_outcomes [of "''nginx''" "''latest''"
      "service [] (notaryWithHashes (sha256_only [0xde, 0xad]))" liveContext]
  have c6: "fst (getNotaryImageDigestHash
                  (service [] (notaryWithHashes (sha256_only [0xde, 0xad]))) liveContext
                  ''nginx'' ''latest'') = Inr [0xde, 0xad]"
    by blast
  from c1 c2 c3 c4 c5 c6 show ?thesis by (intro conjI)
qed

text \<open>
  The claim C5 as it is written says that the step returns no digest in exactly three
  cases. Here both arguments are non-empty and the client factory fails, so no target is
  returned at all, and the step returns the factory's error and no digest.
\<close>

theorem C5_counterexample:
  "''nginx'' \<noteq> [] \<and> ''latest'' \<noteq> []
   \<and> NewRepoClient (RepoFactory (service [] notaryNoSuchHost)) ''nginx''
         (NotaryConfig (service [] notaryNoSuchHost)) = Inl (ErrNew ''no such host'')
   \<and> getNotaryImageDigestHash (service [] notaryNoSuchHost) liveContext ''nginx'' ''latest''
       = (Inl (ErrNew ''no such host''), [CallNewRepoClient ''nginx''])"
  by (simp add: getNotaryImageDigestHash_def service_record notaryNoSuchHost_def)

text \<open>
  C9, at a failing input. The context passed to Validate is past its deadline
  (\<open>Err()\<close> is \<open>context.DeadlineExceeded\<close>); the image is not allowed and both lookups
  answer with the same 32-byte digest. Validate makes all its calls and returns nil: no
  deadline error.
\<close>

theorem C9_expired_context_is_ignored:
  "Err expiredContext = Some DeadlineExceeded
   \<and> Validate (registryWithDigest TrustedImageHex)
        (service [] (notaryWithHashes (sha256_only TrustedImageHash)))
        expiredContext ''eu.gcr.io/kyma-project/function-controller:PR-16481''
     = (None, [CallNewRepoClient ''eu.gcr.io/kyma-project/function-controller'',
               CallGetTargetByName ''PR-16481'',
               CallParseReference ''eu.gcr.io/kyma-project/function-controller:PR-16481'',
               CallRemoteImage, CallManifest])"
proof -
  have "Split ''eu.gcr.io/kyma-project/function-controller:PR-16481'' tagDelim
          = [''eu.gcr.io/kyma-project/function-controller'', ''PR-16481'']"
    by (rule Split_reference) (simp_all add: tagDelim_def)
  moreover have "\<not> isImageAllowed
      (service [] (notaryWithHashes (sha256_only TrustedImageHash)))
      ''eu.gcr.io/kyma-project/function-controller''"
    by (simp add: isImageAllowed_def service_record)
  ultimately show ?thesis
    by (simp add: Validate_reference getNotaryImageDigestHash_notaryWithHashes
        getImageDigestHash_registryWithDigest [OF _ DecodeString_TrustedImageHex]
        expiredContext_def)
qed

section \<open>The claims about the reconciler\<close>

text \<open>
  C6. For either kind, when the fetch finds the live object the outcome depends on the
  live object through its webhook list and its metadata only: with a webhook list equal
  to the desired one nothing is written and nil is returned; otherwise exactly one
  update is issued, of the object made of the live metadata and the desired webhook
  list, and its result is returned (for the mutating kind, wrapped).
\<close>

theorem C6_update_only_on_webhook_drift:
  "(wt = MutatingWebhook \<longrightarrow> GetMutating client ctx defaultingKey = Inr mwhc \<longrightarrow>
      EnsureWebhookConfigurationFor WebhookPath IsNotFound ctx client config wt =
        (let desired = MutatingWebhookConfiguration.Webhooks
                         (createMutatingWebhookConfiguration WebhookPath config);
             updated = \<lparr>MutatingWebhookConfiguration.ObjectMeta =
                           MutatingWebhookConfiguration.ObjectMeta mwhc,
                        Webhooks = desired\<rparr>
         in if MutatingWebhookConfiguration.Webhooks mwhc = desired
            then (None, [GetMutatingRequest defaultingKey])
            else (Wrap (UpdateMutating client ctx updated)
                    ''while updating webhook mutation configuration'',
                  [GetMutatingRequest defaultingKey, UpdateMutatingRequest updated])))
   \<and> (wt \<noteq> MutatingWebhook \<longrightarrow> GetValidating client ctx validationKey = Inr vwhc \<longrightarrow>
      EnsureWebhookConfigurationFor WebhookPath IsNotFound ctx client config wt =
        (let desired = ValidatingWebhookConfiguration.Webhooks
                         (createValidatingWebhookConfiguration config);
             updated = \<lparr>ValidatingWebhookConfiguration.ObjectMeta =
                           ValidatingWebhookConfiguration.ObjectMeta vwhc,
                        Webhooks = desired\<rparr>
         in if ValidatingWebhookConfiguration.Webhooks vwhc = desired
            then (None, [GetValidatingRequest validationKey])
            else (UpdateValidating client ctx updated,
                  [GetValidatingRequest validationKey, UpdateValidatingRequest updated])))"
proof (intro conjI impI)
  assume "wt = MutatingWebhook" and "GetMutating client ctx defaultingKey = Inr mwhc"
  then show "EnsureWebhookConfigurationFor WebhookPath IsNotFound ctx client config wt =
        (let desired = MutatingWebhookConfiguration.Webhooks
                         (createMutatingWebhookConfiguration WebhookPath config);
             updated = \<lparr>MutatingWebhookConfiguration.ObjectMeta =
                           MutatingWebhookConfiguration.ObjectMeta mwhc,
                        Webhooks = desired\<rparr>
         in if MutatingWebhookConfiguration.Webhooks mwhc = desired
            then (None, [GetMutatingRequest defaultingKey])
            else (Wrap (UpdateMutating client ctx updated)
                    ''while updating webhook mutation configuration'',
                  [GetMutatingRequest defaultingKey, UpdateMutatingRequest updated]))"
    by (auto simp: EnsureWebhookConfigurationFor_def ensureMutatingWebhookConfigFor_def
        defaultingKey_def Let_def createMutatingWebhookConfiguration_def)
next
  assume "wt \<noteq> MutatingWebhook" and "GetValidating client ctx validationKey = Inr vwhc"
  then show "EnsureWebhookConfigurationFor WebhookPath IsNotFound ctx client config wt =
        (let desired = ValidatingWebhookConfiguration.Webhooks
                         (createValidatingWebhookConfiguration config);
             updated = \<lparr>ValidatingWebhookConfiguration.ObjectMeta =
                           ValidatingWebhookConfiguration.ObjectMeta vwhc,
                        Webhooks = desired\<rparr>
         in if ValidatingWebhookConfiguration.Webhooks vwhc = desired
            then (None, [GetValidatingRequest validationKey])
            else (UpdateValidating client ctx updated,
                  [GetValidatingRequest validationKey, UpdateValidatingRequest updated]))"
    by (auto simp: EnsureWebhookConfigurationFor_def ensureValidatingWebhookConfigFor_def
        validationKey_def Let_def createValidatingWebhookConfiguration_def)
qed

theorem C6_witness:
  "EnsureWebhookConfigurationFor ''/defaulting/pods'' apiErrors_IsNotFound liveContext
     (clientAnswering (Inr liveMutating) (Inr liveValidating)) config1 MutatingWebhook
     = (None, [GetMutatingRequest defaultingKey])
   \<and> EnsureWebhookConfigurationFor ''/defaulting/pods'' apiErrors_IsNotFound liveContext
     (clientAnswering (Inr liveMutating) (Inr liveValidating)) config2 MutatingWebhook
     = (None,
        [GetMutatingRequest defaultingKey,
         UpdateMutatingRequest
           \<lparr>MutatingWebhookConfiguration.ObjectMeta = liveMeta DefaultingWebhookName,
            Webhooks = MutatingWebhookConfiguration.Webhooks
                         (createMutatingWebhookConfiguration ''/defaulting/pods'' config2)\<rparr>])
   \<and> EnsureWebhookConfigurationFor ''/defaulting/pods'' apiErrors_IsNotFound liveContext
     (clientAnswering (Inr liveMutating) (Inr liveValidating)) config1 ValidatingWebHook
     = (None, [GetValidatingRequest validationKey])
   \<and> EnsureWebhookConfigurationFor ''/defaulting/pods'' apiErrors_IsNotFound liveContext
     (clientAnswering (Inr liveMutating) (Inr liveValidating)) config2 ValidatingWebHook
     = (None,
        [GetValidatingRequest validationKey,
         UpdateValidatingRequest
           \<lparr>ValidatingWebhookConfiguration.ObjectMeta = liveMeta ValidationWebhookName,
            Webhooks = ValidatingWebhookConfiguration.Webhooks
                         (createValidatingWebhookConfiguration config2)\<rparr>])"
proof -
  let ?client = "clientAnswering (Inr liveMutating) (Inr liveValidating)"
  have kind: "ValidatingWebHook \<noteq> MutatingWebhook"
    by (simp add: ValidatingWebHook_def MutatingWebhook_def)
  have getM: "GetMutating ?client liveContext defaultingKey = Inr liveMutating"
    by (simp add: clientAnswering_def)
  have getV: "GetValidating ?client liveContext validationKey = Inr liveValidating"
    by (simp add: clientAnswering_def)
  have accept: "UpdateMutating ?client liveContext m = None"
    "UpdateValidating ?client liveContext v = None" for m v
    by (simp_all add: clientAnswering_def)
  have sameM: "MutatingWebhookConfiguration.Webhooks liveMutating
      = MutatingWebhookConfiguration.Webhooks
          (createMutatingWebhookConfiguration ''/defaulting/pods'' config1)"
    by (simp add: liveMutating_def)
  have driftM: "MutatingWebhookConfiguration.Webhooks liveMutating
      \<noteq> MutatingWebhookConfiguration.Webhooks
          (createMutatingWebhookConfiguration ''/defaulting/pods'' config2)"
    by (simp add: liveMutating_def createMutatingWebhookConfiguration_def
        getFunctionMutatingWebhookCfg_def config1_def config2_def)
  have sameV: "ValidatingWebhookConfiguration.Webhooks liveValidating
      = ValidatingWebhookConfiguration.Webhooks (createValidatingWebhookConfiguration config1)"
    by (simp add: liveValidating_def)
  have driftV: "ValidatingWebhookConfiguration.Webhooks liveValidating
      \<noteq> ValidatingWebhookConfiguration.Webhooks (createValidatingWebhookConfiguration config2)"
    by (simp add: liveValidating_def createValidatingWebhookConfiguration_def
        config1_def config2_def)
  have metaM: "MutatingWebhookConfiguration.ObjectMeta liveMutating
      = liveMeta DefaultingWebhookName"
    by (simp add: liveMutating_def)
  have metaV: "ValidatingWebhookConfiguration.ObjectMeta liveValidating
      = liveMeta ValidationWebhookName"
    by (simp add: liveValidating_def)
  note c6 = C6_update_only_on_webhook_drift
      [where client = ?client and ctx = liveContext and mwhc = liveMutating
         and vwhc = liveValidating and WebhookPath = "''/defaulting/pods''"
         and IsNotFound = apiErrors_IsNotFound]
  from c6 [where wt = MutatingWebhook and config = config1] getM
  have r1: "EnsureWebhookConfigurationFor ''/defaulting/pods'' apiErrors_IsNotFound liveContext ?client config1
      MutatingWebhook = (None, [GetMutatingRequest defaultingKey])"
    by (simp add: sameM)
  from c6 [where wt = MutatingWebhook and config = config2] getM
  have r2: "EnsureWebhookConfigurationFor ''/defaulting/pods'' apiErrors_IsNotFound liveContext ?client config2
      MutatingWebhook
      = (None,
         [GetMutatingRequest defaultingKey,
          UpdateMutatingRequest
            \<lparr>MutatingWebhookConfiguration.ObjectMeta = liveMeta DefaultingWebhookName,
             Webhooks = MutatingWebhookConfiguration.Webhooks
                          (createMutatingWebhookConfiguration ''/defaulting/pods'' config2)\<rparr>])"
    by (simp add: driftM metaM accept Let_def)
  from c6 [where wt = ValidatingWebHook and config = config1] kind getV
  have r3: "EnsureWebhookConfigurationFor ''/defaulting/pods'' apiErrors_IsNotFound liveContext ?client config1
      ValidatingWebHook = (None, [GetValidatingRequest validationKey])"
    by (simp add: sameV)
  from c6 [where wt = ValidatingWebHook and config = config2] kind getV
  have r4: "EnsureWebhookConfigurationFor ''/defaulting/pods'' apiErrors_IsNotFound liveContext ?client config2
      ValidatingWebHook
      = (None,
         [GetValidatingRequest validationKey,
          UpdateValidatingRequest
            \<lparr>ValidatingWebhookConfiguration.ObjectMeta = liveMeta ValidationWebhookName,
             Webhooks = ValidatingWebhookConfiguration.Webhooks
                          (createValidatingWebhookConfiguration config2)\<rparr>])"
    by (simp add: driftV metaV accept Let_def)
  from r1 r2 r3 r4 show ?thesis by (intro conjI)
qed

text \<open>
  C7. The desired objects are functions of the configuration alone. The mutating
  webhook has failure policy Fail, reinvocation policy Never, match policy Exact, scope
  all, side effects None, the operations Create and Update on the resource pods, port
  443, a timeout of 15 seconds and the admission review versions v1beta1 and v1, and it
  targets the configured service with the configured CA bundle. The webhook of the
  validating object has the same rules, timeout and versions, failure policy Ignore and
  the path /validation/pods.
\<close>

theorem C7_desired_objects:
  "MutatingWebhookConfiguration.Webhooks (createMutatingWebhookConfiguration WebhookPath config)
     = Slice [getFunctionMutatingWebhookCfg WebhookPath config]
   \<and> MutatingWebhook.FailurePolicy (getFunctionMutatingWebhookCfg WebhookPath config) = Some Fail
   \<and> ReinvocationPolicy (getFunctionMutatingWebhookCfg WebhookPath config)
       = Some NeverReinvocationPolicy
   \<and> MutatingWebhook.MatchPolicy (getFunctionMutatingWebhookCfg WebhookPath config) = Some Exact
   \<and> MutatingWebhook.SideEffects (getFunctionMutatingWebhookCfg WebhookPath config)
       = Some SideEffectClassNone
   \<and> MutatingWebhook.Rules (getFunctionMutatingWebhookCfg WebhookPath config)
       = Slice [\<lparr>Operations = Slice [Create, Update],
                 Rule = \<lparr>APIGroups = Slice [''''], APIVersions = Slice [''v1''],
                          Resources = Slice [''pods''], Scope = Some AllScopes\<rparr>\<rparr>]
   \<and> MutatingWebhook.ClientConfig (getFunctionMutatingWebhookCfg WebhookPath config)
       = \<lparr>URL = None,
          Service = Some \<lparr>ServiceReference.Namespace = ServiceNamespace config,
                          Name = ServiceName config, Path = Some WebhookPath,
                          Port = Some 443\<rparr>,
          CABundle = CABundel config\<rparr>
   \<and> MutatingWebhook.TimeoutSeconds (getFunctionMutatingWebhookCfg WebhookPath config) = Some 15
   \<and> MutatingWebhook.AdmissionReviewVersions (getFunctionMutatingWebhookCfg WebhookPath config)
       = Slice [''v1beta1'', ''v1'']
   \<and> (\<exists>v. ValidatingWebhookConfiguration.Webhooks (createValidatingWebhookConfiguration config)
             = Slice [v]
        \<and> ValidatingWebhook.FailurePolicy v = Some Ignore
        \<and> ValidatingWebhook.MatchPolicy v = Some Exact
        \<and> ValidatingWebhook.SideEffects v = Some SideEffectClassNone
        \<and> ValidatingWebhook.Rules v
            = MutatingWebhook.Rules (getFunctionMutatingWebhookCfg WebhookPath config)
        \<and> ValidatingWebhook.ClientConfig v
            = \<lparr>URL = None,
               Service = Some \<lparr>ServiceReference.Namespace = ServiceNamespace config,
                               Name = ServiceName config, Path = Some ''/validation/pods'',
                               Port = Some 443\<rparr>,
               CABundle = CABundel config\<rparr>
        \<and> ValidatingWebhook.TimeoutSeconds v = Some 15
        \<and> ValidatingWebhook.AdmissionReviewVersions v = Slice [''v1beta1'', ''v1''])"
proof -
  have mutating:
    "getFunctionMutatingWebhookCfg WebhookPath config =
       \<lparr>MutatingWebhook.Name = DefaultingWebhookName,
        ClientConfig =
          \<lparr>URL = None,
           Service = Some \<lparr>ServiceReference.Namespace = ServiceNamespace config,
                           Name = ServiceName config, Path = Some WebhookPath,
                           Port = Some 443\<rparr>,
           CABundle = CABundel config\<rparr>,
        Rules = Slice [\<lparr>Operations = Slice [Create, Update],
                        Rule = \<lparr>APIGroups = Slice [''''], APIVersions = Slice [''v1''],
                                 Resources = Slice [''pods''], Scope = Some AllScopes\<rparr>\<rparr>],
        FailurePolicy = Some Fail, MatchPolicy = Some Exact,
        NamespaceSelector = None, ObjectSelector = None,
        SideEffects = Some SideEffectClassNone, TimeoutSeconds = Some 15,
        AdmissionReviewVersions = Slice [''v1beta1'', ''v1''],
        ReinvocationPolicy = Some NeverReinvocationPolicy\<rparr>"
    by (simp add: getFunctionMutatingWebhookCfg_def GroupName_def
        SchemeGroupVersion_Version_def ResourcePods_def WebhookTimeout_def)
  have validating:
    "ValidatingWebhookConfiguration.Webhooks (createValidatingWebhookConfiguration config) =
       Slice [\<lparr>ValidatingWebhook.Name = ValidationWebhookName,
        ClientConfig =
          \<lparr>URL = None,
           Service = Some \<lparr>ServiceReference.Namespace = ServiceNamespace config,
                           Name = ServiceName config, Path = Some ''/validation/pods'',
                           Port = Some 443\<rparr>,
           CABundle = CABundel config\<rparr>,
        Rules = Slice [\<lparr>Operations = Slice [Create, Update],
                        Rule = \<lparr>APIGroups = Slice [''''], APIVersions = Slice [''v1''],
                                 Resources = Slice [''pods''], Scope = Some AllScopes\<rparr>\<rparr>],
        FailurePolicy = Some Ignore, MatchPolicy = Some Exact,
        NamespaceSelector = None, ObjectSelector = None,
        SideEffects = Some SideEffectClassNone, TimeoutSeconds = Some 15,
        AdmissionReviewVersions = Slice [''v1beta1'', ''v1'']\<rparr>]"
    by (simp add: createValidatingWebhookConfiguration_def GroupName_def
        SchemeGroupVersion_Version_def ResourcePods_def WebhookTimeout_def
        PodValidationPath_def)
  show ?thesis
    unfolding mutating validating
    by (simp add: createMutatingWebhookConfiguration_def mutating)
qed

text \<open>
  C8, as the code has it. For either kind, when the fetch of the live object fails with
  an error that \<open>apiErrors.IsNotFound\<close> takes for not-found, the desired object is
  built from the configuration and created, by the one write of the call. Any other fetch error is returned wrapped under the message
  "failed to get ... WebhookConfiguration: <name>", the fetch error being its cause;
  nothing is written and the fetch is not repeated.
\<close>

theorem C8_fetch_errors:
  "(wt = MutatingWebhook \<longrightarrow> GetMutating client ctx defaultingKey = Inl err \<longrightarrow>
      EnsureWebhookConfigurationFor WebhookPath IsNotFound ctx client config wt =
        (if IsNotFound err
         then (Wrap (CreateMutating client ctx
                       (createMutatingWebhookConfiguration WebhookPath config))
                 ''while creating webhook mutation configuration'',
               [GetMutatingRequest defaultingKey,
                CreateMutatingRequest (createMutatingWebhookConfiguration WebhookPath config)])
         else (Some (ErrWrap (''failed to get defaulting MutatingWebhookConfiguration: ''
                                @ DefaultingWebhookName) err),
               [GetMutatingRequest defaultingKey])))
   \<and> (wt \<noteq> MutatingWebhook \<longrightarrow> GetValidating client ctx validationKey = Inl err \<longrightarrow>
      EnsureWebhookConfigurationFor WebhookPath IsNotFound ctx client config wt =
        (if IsNotFound err
         then (CreateValidating client ctx (createValidatingWebhookConfiguration config),
               [GetValidatingRequest validationKey,
                CreateValidatingRequest (createValidatingWebhookConfiguration config)])
         else (Some (ErrWrap (''failed to get validation ValidatingWebhookConfiguration: ''
                                @ ValidationWebhookName) err),
               [GetValidatingRequest validationKey])))"
proof (intro conjI impI)
  assume "wt = MutatingWebhook" and "GetMutating client ctx defaultingKey = Inl err"
  then show "EnsureWebhookConfigurationFor WebhookPath IsNotFound ctx client config wt =
        (if IsNotFound err
         then (Wrap (CreateMutating client ctx
                       (createMutatingWebhookConfiguration WebhookPath config))
                 ''while creating webhook mutation configuration'',
               [GetMutatingRequest defaultingKey,
                CreateMutatingRequest (createMutatingWebhookConfiguration WebhookPath config)])
         else (Some (ErrWrap (''failed to get defaulting MutatingWebhookConfiguration: ''
                                @ DefaultingWebhookName) err),
               [GetMutatingRequest defaultingKey]))"
    by (simp add: EnsureWebhookConfigurationFor_def ensureMutatingWebhookConfigFor_def
        defaultingKey_def Let_def)
next
  assume "wt \<noteq> MutatingWebhook" and "GetValidating client ctx validationKey = Inl err"
  then show "EnsureWebhookConfigurationFor WebhookPath IsNotFound ctx client config wt =
        (if IsNotFound err
         then (CreateValidating client ctx (createValidatingWebhookConfiguration config),
               [GetValidatingRequest validationKey,
                CreateValidatingRequest (createValidatingWebhookConfiguration config)])
         else (Some (ErrWrap (''failed to get validation ValidatingWebhookConfiguration: ''
                                @ ValidationWebhookName) err),
               [GetValidatingRequest validationKey]))"
    by (simp add: EnsureWebhookConfigurationFor_def ensureValidatingWebhookConfigFor_def
        validationKey_def Let_def)
qed

theorem C8_witness:
  "EnsureWebhookConfigurationFor ''/defaulting/pods'' apiErrors_IsNotFound liveContext
     (clientAnswering (Inl errNotFound) (Inl errNotFound)) config1 MutatingWebhook
     = (None,
        [GetMutatingRequest defaultingKey,
         CreateMutatingRequest (createMutatingWebhookConfiguration ''/defaulting/pods'' config1)])
   \<and> EnsureWebhookConfigurationFor ''/defaulting/pods'' apiErrors_IsNotFound liveContext
     (clientAnswering (Inl errUnknown404) (Inl errUnknown404)) config1 MutatingWebhook
     = (None,
        [GetMutatingRequest defaultingKey,
         CreateMutatingRequest (createMutatingWebhookConfiguration ''/defaulting/pods'' config1)])
   \<and> EnsureWebhookConfigurationFor ''/defaulting/pods'' apiErrors_IsNotFound liveContext
     (clientAnswering (Inl errForbidden) (Inl errForbidden)) config1 MutatingWebhook
     = (Some (ErrWrap (''failed to get defaulting MutatingWebhookConfiguration: ''
                         @ DefaultingWebhookName) errForbidden),
        [GetMutatingRequest defaultingKey])
   \<and> EnsureWebhookConfigurationFor ''/defaulting/pods'' apiErrors_IsNotFound liveContext
     (clientAnswering (Inl errNotFound) (Inl errNotFound)) config1 ValidatingWebHook
     = (None,
        [GetValidatingRequest validationKey,
         CreateValidatingRequest (createValidatingWebhookConfiguration config1)])
   \<and> EnsureWebhookConfigurationFor ''/defaulting/pods'' apiErrors_IsNotFound liveContext
     (clientAnswering (Inl errForbidden) (Inl errForbidden)) config1 ValidatingWebHook
     = (Some (ErrWrap (''failed to get validation ValidatingWebhookConfiguration: ''
                         @ ValidationWebhookName) errForbidden),
        [GetValidatingRequest validationKey])"
proof -
  have kind: "ValidatingWebHook \<noteq> MutatingWebhook"
    by (simp add: ValidatingWebHook_def MutatingWebhook_def)
  have nf: "apiErrors_IsNotFound errNotFound" "apiErrors_IsNotFound errUnknown404"
    "\<not> apiErrors_IsNotFound errForbidden"
    by (simp_all add: apiErrors_IsNotFound_def errNotFound_def errUnknown404_def
        errForbidden_def StatusReasonNotFound_def StatusReasonUnknown_def
        StatusReasonForbidden_def knownReasons_def)
  have get: "GetMutating (clientAnswering (Inl e) (Inl e)) liveContext defaultingKey = Inl e"
    "GetValidating (clientAnswering (Inl e) (Inl e)) liveContext validationKey = Inl e" for e
    by (simp_all add: clientAnswering_def)
  have accept: "CreateMutating (clientAnswering m v) liveContext obj = None"
    "CreateValidating (clientAnswering m v) liveContext obj' = None" for m v obj obj'
    by (simp_all add: clientAnswering_def)
  note c8 = C8_fetch_errors
      [where ctx = liveContext and WebhookPath = "''/defaulting/pods''" and config = config1
         and IsNotFound = apiErrors_IsNotFound]
  from c8 [where wt = MutatingWebhook and err = errNotFound
             and client = "clientAnswering (Inl errNotFound) (Inl errNotFound)"]
    get [of errNotFound]
  have r1: "EnsureWebhookConfigurationFor ''/defaulting/pods'' apiErrors_IsNotFound liveContext
     (clientAnswering (Inl errNotFound) (Inl errNotFound)) config1 MutatingWebhook
     = (None,
        [GetMutatingRequest defaultingKey,
         CreateMutatingRequest (createMutatingWebhookConfiguration ''/defaulting/pods'' config1)])"
    by (simp add: nf accept)
  from c8 [where wt = MutatingWebhook and err = errUnknown404
             and client = "clientAnswering (Inl errUnknown404) (Inl errUnknown404)"]
    get [of errUnknown404]
  have r1': "EnsureWebhookConfigurationFor ''/defaulting/pods'' apiErrors_IsNotFound liveContext
     (clientAnswering (Inl errUnknown404) (Inl errUnknown404)) config1 MutatingWebhook
     = (None,
        [GetMutatingRequest defaultingKey,
         CreateMutatingRequest (createMutatingWebhookConfiguration ''/defaulting/pods'' config1)])"
    by (simp add: nf accept)
  from c8 [where wt = MutatingWebhook and err = errForbidden
             and client = "clientAnswering (Inl errForbidden) (Inl errForbidden)"]
    get [of errForbidden]
  have r2: "EnsureWebhookConfigurationFor ''/defaulting/pods'' apiErrors_IsNotFound liveContext
     (clientAnswering (Inl errForbidden) (Inl errForbidden)) config1 MutatingWebhook
     = (Some (ErrWrap (''failed to get defaulting MutatingWebhookConfiguration: ''
                         @ DefaultingWebhookName) errForbidden),
        [GetMutatingRequest defaultingKey])"
    by (simp add: nf)
  from c8 [where wt = ValidatingWebHook and err = errNotFound
             and client = "clientAnswering (Inl errNotFound) (Inl errNotFound)"]
    get [of errNotFound] kind
  have r3: "EnsureWebhookConfigurationFor ''/defaulting/pods'' apiErrors_IsNotFound liveContext
     (clientAnswering (Inl errNotFound) (Inl errNotFound)) config1 ValidatingWebHook
     = (None,
        [GetValidatingRequest validationKey,
         CreateValidatingRequest (createValidatingWebhookConfiguration config1)])"
    by (simp add: nf accept)
  from c8 [where wt = ValidatingWebHook and err = errForbidden
             and client = "clientAnswering (Inl errForbidden) (Inl errForbidden)"]
    get [of errForbidden] kind
  have r4: "EnsureWebhookConfigurationFor ''/defaulting/pods'' apiErrors_IsNotFound liveContext
     (clientAnswering (Inl errForbidden) (Inl errForbidden)) config1 ValidatingWebHook
     = (Some (ErrWrap (''failed to get validation ValidatingWebhookConfiguration: ''
                         @ ValidationWebhookName) errForbidden),
        [GetValidatingRequest validationKey])"
    by (simp add: nf)
  from r1 r1' r2 r3 r4 show ?thesis by (intro conjI)
qed

text \<open>
  The claim C8 as it is written says that a fetch error other than not-found is
  returned as it is. Here the fetch is forbidden, and what the caller gets is not the
  fetch error but an error that wraps it.
\<close>

theorem C8_counterexample:
  "\<not> apiErrors_IsNotFound errForbidden
   \<and> fst (EnsureWebhookConfigurationFor ''/defaulting/pods'' apiErrors_IsNotFound liveContext
            (clientAnswering (Inl errForbidden) (Inl errForbidden)) config1 MutatingWebhook)
       = Some (ErrWrap ''failed to get defaulting MutatingWebhookConfiguration: defaulting.webhook.warden.kyma-project.io''
                 errForbidden)
   \<and> fst (EnsureWebhookConfigurationFor ''/defaulting/pods'' apiErrors_IsNotFound liveContext
            (clientAnswering (Inl errForbidden) (Inl errForbidden)) config1 MutatingWebhook)
       \<noteq> Some errForbidden
   \<and> fst (EnsureWebhookConfigurationFor ''/defaulting/pods'' apiErrors_IsNotFound liveContext
            (clientAnswering (Inl errForbidden) (Inl errForbidden)) config1 ValidatingWebHook)
       \<noteq> Some errForbidden"
  by (simp add: EnsureWebhookConfigurationFor_def ensureMutatingWebhookConfigFor_def
      ensureValidatingWebhookConfigFor_def clientAnswering_def errForbidden_def
      MutatingWebhook_def ValidatingWebHook_def DefaultingWebhookName_def
      apiErrors_IsNotFound_def StatusReasonNotFound_def StatusReasonForbidden_def
      knownReasons_def)

end
